theory Spec2Isabelle
  imports Complex_Main "HOL-Library.Log_Nat"
begin

section \<open>The whale-trade edge function\<close>

text \<open>
  The serverless function \<^verbatim>\<open>fetch-binance-whales\<close> answers one HTTP request. It talks to
  three outside parties: the authentication service, the hosted database and the exchange.
  The model gives the answers of those parties as an environment and returns, next to the
  HTTP response, the list of effects the handler performs, in the order it performs them.
\<close>

subsection \<open>Runtime operations\<close>

text \<open>
  The handler computes on JavaScript numbers (IEEE doubles) with \<^verbatim>\<open>parseFloat\<close>, \<^verbatim>\<open>*\<close> and
  \<^verbatim>\<open>>=\<close>, writes the literal \<^verbatim>\<open>100000\<close>, and renders a time with
  \<^verbatim>\<open>new Date(t).toISOString()\<close>, which raises a RangeError when \<^verbatim>\<open>t\<close> is not a valid time
  value. These built-ins are parameters of the model, so every theorem below holds for the
  operations of the real runtime in particular. Numbers have the type \<open>'n\<close>.
\<close>

record 'n js_runtime =
  parseFloat :: "string \<Rightarrow> 'n"
  num_mul :: "'n \<Rightarrow> 'n \<Rightarrow> 'n"
  num_ge :: "'n \<Rightarrow> 'n \<Rightarrow> bool"
  num_lit :: "int \<Rightarrow> 'n"
  toISOString :: "int \<Rightarrow> string option"

definition WHALE_THRESHOLD :: "'n js_runtime \<Rightarrow> 'n" where
  "WHALE_THRESHOLD rt = num_lit rt 100000"

subsection \<open>Data\<close>

text \<open>An entry of \<^verbatim>\<open>exchangeData.symbols\<close>; only the three fields the handler reads.\<close>

record symbol_info =
  symbol :: string
  quoteAsset :: string
  status :: string

text \<open>A trade as the exchange reports it: price and quantity are decimal strings, the time
  is in milliseconds since the epoch.\<close>

record trade =
  price :: string
  qty :: string
  isBuyerMaker :: bool
  time :: int

text \<open>The object handed to \<^verbatim>\<open>upsert\<close> (its fields are \<^verbatim>\<open>user_id\<close>, \<^verbatim>\<open>symbol\<close>, \<^verbatim>\<open>amount\<close>,
  \<^verbatim>\<open>price\<close>, \<^verbatim>\<open>trade_type\<close> and \<^verbatim>\<open>timestamp\<close>).\<close>

record 'n whale_row =
  w_user_id :: string
  w_symbol :: string
  w_amount :: 'n
  w_price :: 'n
  w_trade_type :: string
  w_timestamp :: string

record user =
  user_uid :: string

record api_keys =
  binance_api_key :: string
  binance_api_secret :: string

text \<open>A value that was thrown: an \<^verbatim>\<open>Error\<close> with its message, or anything else.\<close>

datatype thrown = JsError string | NonError

text \<open>What \<^verbatim>\<open>fetch\<close> of the trades of one pair can come to: the fetch itself rejects, the
  response is not ok (with its text), the body is an array of trades, or reading the body
  as an array of trades raises.\<close>

datatype trades_response =
  FetchThrows thrown
| NotOk string
| OkJson "trade list"
| JsonThrows thrown

record 'n env =
  auth_getUser :: "string \<Rightarrow> user option \<times> string option"
  select_api_keys :: "string \<Rightarrow> api_keys option \<times> string option"
  fetch_exchangeInfo :: "thrown + symbol_info list"
  fetch_trades :: "string \<Rightarrow> string \<Rightarrow> trades_response"
  upsert_whale_trade :: "'n whale_row \<Rightarrow> string option"

record request =
  req_method :: string
  req_authorization :: "string option"

datatype body = NoBody | SuccessBody "trade list" | ErrorBody string

record response =
  resp_status :: nat
  resp_headers :: "(string \<times> string) list"
  resp_body :: body

text \<open>The effects of one invocation. Of a \<^verbatim>\<open>console.error\<close> call the first argument is kept.\<close>

datatype 'n event =
  ConsoleLog string
| ConsoleError string
| GetUser string
| SelectApiKeys string
| FetchExchangeInfo
| FetchTrades string string
| Upsert "'n whale_row"

subsection \<open>The handler\<close>

definition corsHeaders :: "(string \<times> string) list" where
  "corsHeaders =
     [(''Access-Control-Allow-Origin'', ''*''),
      (''Access-Control-Allow-Headers'', ''authorization, x-client-info, apikey, content-type'')]"

text \<open>\<^verbatim>\<open>s.replace(pat, rep)\<close> with a string pattern: the first occurrence only.\<close>

fun replace_first :: "string \<Rightarrow> string \<Rightarrow> string \<Rightarrow> string" where
  "replace_first pat rep [] = (if pat = [] then rep else [])"
| "replace_first pat rep (c # cs) =
     (if take (length pat) (c # cs) = pat then rep @ drop (length pat) (c # cs)
      else c # replace_first pat rep cs)"

text \<open>The filter of lines 87 to 90.\<close>

definition is_whale :: "'n js_runtime \<Rightarrow> trade \<Rightarrow> bool" where
  "is_whale rt trade =
     (let value = num_mul rt (parseFloat rt (price trade)) (parseFloat rt (qty trade))
      in num_ge rt value (WHALE_THRESHOLD rt))"

text \<open>The loop of lines 93 to 112 over the whale trades of one pair. It returns its effects
  and, when building a row raised, the value thrown; the remaining trades are then not
  visited. An error the upsert returns is logged and the loop goes on.\<close>

fun store_whales ::
  "'n js_runtime \<Rightarrow> 'n env \<Rightarrow> string \<Rightarrow> string \<Rightarrow> trade list \<Rightarrow> 'n event list \<times> thrown option"
where
  "store_whales rt env uid smb [] = ([], None)"
| "store_whales rt env uid smb (trade # rest) =
     (let tradeValue = num_mul rt (parseFloat rt (price trade)) (parseFloat rt (qty trade))
      in case toISOString rt (time trade) of
           None \<Rightarrow> ([], Some (JsError ''Invalid time value''))
         | Some stamp \<Rightarrow>
             let row = \<lparr> w_user_id = uid, w_symbol = smb, w_amount = tradeValue,
                         w_price = parseFloat rt (price trade),
                         w_trade_type = (if isBuyerMaker trade then ''buy'' else ''sell''),
                         w_timestamp = stamp \<rparr>;
                 logged = (case upsert_whale_trade env row of
                             Some insertError \<Rightarrow> ConsoleError ''Error inserting whale trade:''
                           | None \<Rightarrow> ConsoleLog (''Successfully inserted whale trade for '' @ smb));
                 (evs, thr) = store_whales rt env uid smb rest
             in (Upsert row # logged # evs, thr))"

text \<open>The body of the loop over pairs, lines 69 to 117: the effects for one pair and the
  trades it adds to \<^verbatim>\<open>whales\<close>.\<close>

definition process_pair ::
  "'n js_runtime \<Rightarrow> 'n env \<Rightarrow> string \<Rightarrow> string \<Rightarrow> string \<Rightarrow> 'n event list \<times> trade list"
where
  "process_pair rt env uid key smb =
     (case fetch_trades env smb key of
        FetchThrows e \<Rightarrow>
          ([FetchTrades smb key, ConsoleError (''Error fetching trades for '' @ smb @ '':'')], [])
      | NotOk txt \<Rightarrow>
          ([FetchTrades smb key, ConsoleError (''Failed to fetch trades for '' @ smb @ '':'')], [])
      | JsonThrows e \<Rightarrow>
          ([FetchTrades smb key, ConsoleError (''Error fetching trades for '' @ smb @ '':'')], [])
      | OkJson tradeData \<Rightarrow>
          (let whaleTrades = filter (is_whale rt) tradeData;
               (evs, thr) = store_whales rt env uid smb whaleTrades
           in case thr of
                None \<Rightarrow> (FetchTrades smb key # evs, whaleTrades)
              | Some e \<Rightarrow>
                  (FetchTrades smb key # evs
                     @ [ConsoleError (''Error fetching trades for '' @ smb @ '':'')], [])))"

text \<open>The loop of line 68 over the pairs, one after the other.\<close>

fun pair_loop ::
  "'n js_runtime \<Rightarrow> 'n env \<Rightarrow> string \<Rightarrow> string \<Rightarrow> string list \<Rightarrow> 'n event list \<times> trade list"
where
  "pair_loop rt env uid key [] = ([], [])"
| "pair_loop rt env uid key (smb # syms) =
     (let (evs, ws) = process_pair rt env uid key smb;
          (evs', ws') = pair_loop rt env uid key syms
      in (evs @ evs', ws @ ws'))"

definition usdtPairs :: "symbol_info list \<Rightarrow> string list" where
  "usdtPairs symbols =
     map symbol (filter (\<lambda>s. quoteAsset s = ''USDT'' \<and> status s = ''TRADING'') symbols)"

definition json_headers :: "(string \<times> string) list" where
  "json_headers = corsHeaders @ [(''Content-Type'', ''application/json'')]"

text \<open>The \<^verbatim>\<open>try\<close> block of lines 17 to 129, in three stages: each returns its effects
  and the response it returns or the value it throws.\<close>

text \<open>Lines 54 to 129, once the user and the API keys are known.\<close>

definition serve_whales ::
  "'n js_runtime \<Rightarrow> 'n env \<Rightarrow> user \<Rightarrow> api_keys \<Rightarrow> 'n event list \<times> (thrown + response)"
where
  "serve_whales rt env usr apiKeys =
     (case fetch_exchangeInfo env of
        Inl e \<Rightarrow>
          ([ConsoleLog ''Fetching exchange info from Binance...'', FetchExchangeInfo], Inl e)
      | Inr symbols \<Rightarrow>
          (let (evs, whales) =
                 pair_loop rt env (user_uid usr) (binance_api_key apiKeys)
                   (take 10 (usdtPairs symbols))
           in ([ConsoleLog ''Fetching exchange info from Binance...'', FetchExchangeInfo,
                ConsoleLog ''Fetching trades for USDT pairs...'']
                 @ evs @ [ConsoleLog ''Completed processing whale trades''],
               Inr \<lparr> resp_status = 200, resp_headers = json_headers,
                     resp_body = SuccessBody whales \<rparr>)))"

text \<open>Lines 41 to 129, once the user is known.\<close>

definition serve_keys ::
  "'n js_runtime \<Rightarrow> 'n env \<Rightarrow> user \<Rightarrow> 'n event list \<times> (thrown + response)"
where
  "serve_keys rt env usr =
     (let (apiKeys, apiKeysError) = select_api_keys env (user_uid usr);
          evs = [ConsoleLog ''Fetching API keys for user:'', SelectApiKeys (user_uid usr)]
      in if apiKeysError \<noteq> None \<or> apiKeys = None then
           (evs @ [ConsoleError ''API keys not found:''], Inl (JsError ''API keys not found''))
         else
           (let (evs', r) = serve_whales rt env usr (the apiKeys) in (evs @ evs', r)))"

definition serve_try ::
  "'n js_runtime \<Rightarrow> 'n env \<Rightarrow> request \<Rightarrow> 'n event list \<times> (thrown + response)"
where
  "serve_try rt env req =
     (let authHeader = req_authorization req
      in if authHeader = None \<or> authHeader = Some [] then
           ([ConsoleLog ''Initializing Supabase client...'',
             ConsoleError ''No authorization header provided''],
            Inl (JsError ''No authorization header''))
         else
           (let token = replace_first ''Bearer '' [] (the authHeader);
                (usr, userError) = auth_getUser env token;
                evs = [ConsoleLog ''Initializing Supabase client...'',
                       ConsoleLog ''Authenticating user...'', GetUser token]
            in if userError \<noteq> None \<or> usr = None then
                 (evs @ [ConsoleError ''Authentication failed:''], Inl (JsError ''Unauthorized''))
               else
                 (let (evs', r) = serve_keys rt env (the usr) in (evs @ evs', r))))"

text \<open>The handler of lines 11 to 146: the preflight answer, the \<^verbatim>\<open>try\<close> block and the
  \<^verbatim>\<open>catch\<close> that turns any thrown value into the response with status 500.\<close>

definition error_message :: "thrown \<Rightarrow> string" where
  "error_message e = (case e of JsError m \<Rightarrow> m | NonError \<Rightarrow> ''Unknown error occurred'')"

definition serve :: "'n js_runtime \<Rightarrow> 'n env \<Rightarrow> request \<Rightarrow> 'n event list \<times> response" where
  "serve rt env req =
     (if req_method req = ''OPTIONS'' then
        ([], \<lparr> resp_status = 200, resp_headers = corsHeaders, resp_body = NoBody \<rparr>)
      else case serve_try rt env req of
             (evs, Inr resp) \<Rightarrow> (evs, resp)
           | (evs, Inl e) \<Rightarrow>
               (evs @ [ConsoleError ''Error in fetch-binance-whales:''],
                \<lparr> resp_status = 500, resp_headers = json_headers,
                  resp_body = ErrorBody (error_message e) \<rparr>))"

subsection \<open>Reading a run of the handler\<close>

text \<open>The rows upserted and the pairs whose trades were fetched, in the order of the run.\<close>

fun upserts_of :: "'n event list \<Rightarrow> 'n whale_row list" where
  "upserts_of [] = []"
| "upserts_of (Upsert r # evs) = r # upserts_of evs"
| "upserts_of (_ # evs) = upserts_of evs"

fun fetches_of :: "'n event list \<Rightarrow> string list" where
  "fetches_of [] = []"
| "fetches_of (FetchTrades s k # evs) = s # fetches_of evs"
| "fetches_of (_ # evs) = fetches_of evs"

text \<open>Every upsert of a run belongs to the pair that was fetched last before it; \<open>cur\<close> is
  that pair, \<open>None\<close> before the first fetch.\<close>

fun upserts_follow_fetch :: "string option \<Rightarrow> 'n event list \<Rightarrow> bool" where
  "upserts_follow_fetch cur [] = True"
| "upserts_follow_fetch cur (FetchTrades s k # evs) = upserts_follow_fetch (Some s) evs"
| "upserts_follow_fetch cur (Upsert r # evs) =
     (cur = Some (w_symbol r) \<and> upserts_follow_fetch cur evs)"
| "upserts_follow_fetch cur (_ # evs) = upserts_follow_fetch cur evs"

text \<open>The request passes authentication and the API keys of its user are found: the user
  and the keys the handler then works with. A preflight request is answered before any of
  this.\<close>

definition authenticated :: "'n env \<Rightarrow> request \<Rightarrow> (user \<times> api_keys) option" where
  "authenticated env req =
     (if req_method req = ''OPTIONS'' then None
      else case req_authorization req of
             None \<Rightarrow> None
           | Some h \<Rightarrow>
               (if h = [] then None
                else let (usr, userError) = auth_getUser env (replace_first ''Bearer '' [] h)
                     in if userError \<noteq> None \<or> usr = None then None
                        else let (apiKeys, apiKeysError) = select_api_keys env (user_uid (the usr))
                             in if apiKeysError \<noteq> None \<or> apiKeys = None then None
                                else Some (the usr, the apiKeys)))"

text \<open>The row the claims describe for a trade of a pair.\<close>

definition whale_row_of :: "'n js_runtime \<Rightarrow> string \<Rightarrow> string \<Rightarrow> trade \<Rightarrow> 'n whale_row" where
  "whale_row_of rt uid smb t =
     \<lparr> w_user_id = uid, w_symbol = smb,
       w_amount = num_mul rt (parseFloat rt (price t)) (parseFloat rt (qty t)),
       w_price = parseFloat rt (price t),
       w_trade_type = (if isBuyerMaker t then ''buy'' else ''sell''),
       w_timestamp = the (toISOString rt (time t)) \<rparr>"

text \<open>The trades the exchange returns for the pairs carry times the runtime can render, as
  every time of the exchange is (milliseconds since the epoch of a recent date).\<close>

definition times_renderable :: "'n js_runtime \<Rightarrow> 'n env \<Rightarrow> string \<Rightarrow> string list \<Rightarrow> bool" where
  "times_renderable rt env key pairs =
     (\<forall>s \<in> set pairs.
        case fetch_trades env s key of
          OkJson tradeData \<Rightarrow>
            (\<forall>t \<in> set tradeData. is_whale rt t \<longrightarrow> toISOString rt (time t) \<noteq> None)
        | _ \<Rightarrow> True)"

text \<open>The trades of a pair that reach the threshold, when the fetch succeeded.\<close>

definition qualifying :: "'n js_runtime \<Rightarrow> 'n env \<Rightarrow> string \<Rightarrow> string \<Rightarrow> trade list" where
  "qualifying rt env key smb =
     (case fetch_trades env smb key of
        OkJson tradeData \<Rightarrow>
          filter (\<lambda>t. num_ge rt (num_mul rt (parseFloat rt (price t)) (parseFloat rt (qty t)))
                        (num_lit rt 100000)) tradeData
      | _ \<Rightarrow> [])"

definition fetch_failed :: "trades_response \<Rightarrow> bool" where
  "fetch_failed r = (case r of OkJson tradeData \<Rightarrow> False | _ \<Rightarrow> True)"

subsection \<open>A runtime and an environment to evaluate the handler on\<close>

text \<open>
  Numbers are integers or NaN (\<open>None\<close>); \<^verbatim>\<open>parseFloat\<close> reads the leading run of decimal
  digits; a time within the range of \<^verbatim>\<open>Date\<close> is rendered as its count of milliseconds. On
  strings of digits this runtime computes what JavaScript computes as long as the products
  stay below \<open>2^53\<close>.
\<close>

definition digit_of :: "char \<Rightarrow> int option" where
  "digit_of c =
     (let n = (of_char c :: nat) in if 48 \<le> n \<and> n \<le> 57 then Some (int n - 48) else None)"

fun leading_digits :: "string \<Rightarrow> int option \<Rightarrow> int option" where
  "leading_digits [] acc = acc"
| "leading_digits (c # cs) acc =
     (case digit_of c of
        None \<Rightarrow> acc
      | Some d \<Rightarrow> leading_digits cs (Some (10 * (case acc of None \<Rightarrow> 0 | Some a \<Rightarrow> a) + d)))"

definition digit_char :: "int \<Rightarrow> char" where
  "digit_char d = ''0123456789'' ! nat d"

function decimal :: "int \<Rightarrow> string" where
  "decimal n = (if n < 10 then [digit_char n] else decimal (n div 10) @ [digit_char (n mod 10)])"
  by pat_completeness auto
termination
  by (relation "measure nat") auto

declare decimal.simps [simp del]

definition int_runtime :: "int option js_runtime" where
  "int_runtime =
     \<lparr> parseFloat = (\<lambda>s. leading_digits s None),
       num_mul = (\<lambda>a b. case (a, b) of (Some x, Some y) \<Rightarrow> Some (x * y) | _ \<Rightarrow> None),
       num_ge = (\<lambda>a b. case (a, b) of (Some x, Some y) \<Rightarrow> y \<le> x | _ \<Rightarrow> False),
       num_lit = Some,
       toISOString = (\<lambda>t. if \<bar>t\<bar> \<le> 8640000000000000 then Some (decimal \<bar>t\<bar>) else None) \<rparr>"

definition demo_symbols :: "symbol_info list" where
  "demo_symbols =
     [\<lparr> symbol = ''BTCUSDT'', quoteAsset = ''USDT'', status = ''TRADING'' \<rparr>,
      \<lparr> symbol = ''ETHBTC'', quoteAsset = ''BTC'', status = ''TRADING'' \<rparr>,
      \<lparr> symbol = ''ETHUSDT'', quoteAsset = ''USDT'', status = ''TRADING'' \<rparr>,
      \<lparr> symbol = ''XRPUSDT'', quoteAsset = ''USDT'', status = ''BREAK'' \<rparr>]"

definition demo_trades :: "trade list" where
  "demo_trades =
     [\<lparr> price = ''50000'', qty = ''3'', isBuyerMaker = True, time = 1700000000000 \<rparr>,
      \<lparr> price = ''50000'', qty = ''1'', isBuyerMaker = True, time = 1700000000001 \<rparr>,
      \<lparr> price = ''100000'', qty = ''1'', isBuyerMaker = False, time = 1700000000002 \<rparr>]"

definition demo_env :: "int option env" where
  "demo_env =
     \<lparr> auth_getUser = (\<lambda>token. if token = ''tok'' then (Some \<lparr> user_uid = ''u1'' \<rparr>, None)
                                else if token = ''tok2'' then (Some \<lparr> user_uid = ''u2'' \<rparr>, None)
                                else (None, Some ''invalid JWT'')),
       select_api_keys = (\<lambda>uid. if uid = ''u1''
                                  then (Some \<lparr> binance_api_key = ''k'', binance_api_secret = ''s'' \<rparr>, None)
                                  else (None, Some ''no rows'')),
       fetch_exchangeInfo = Inr demo_symbols,
       fetch_trades = (\<lambda>smb key. if smb = ''BTCUSDT'' then OkJson demo_trades
                                  else NotOk ''Too many requests''),
       upsert_whale_trade = (\<lambda>row. None) \<rparr>"

definition demo_request :: request where
  "demo_request = \<lparr> req_method = ''POST'', req_authorization = Some ''Bearer tok'' \<rparr>"

definition preflight_request :: request where
  "preflight_request = \<lparr> req_method = ''OPTIONS'', req_authorization = None \<rparr>"

definition no_header_request :: request where
  "no_header_request = \<lparr> req_method = ''POST'', req_authorization = None \<rparr>"

definition bad_token_request :: request where
  "bad_token_request = \<lparr> req_method = ''POST'', req_authorization = Some ''Bearer expired'' \<rparr>"

definition no_keys_request :: request where
  "no_keys_request = \<lparr> req_method = ''POST'', req_authorization = Some ''Bearer tok2'' \<rparr>"

section \<open>Sentiment counting\<close>

text \<open>
  The sentiment data of a coin, as the two components read it (the declaration of
  \<^verbatim>\<open>SentimentData\<close> is not part of the sources at hand): an object \<^verbatim>\<open>videos\<close>, which may be
  missing, from video ids to videos; a video has its list of comments, a comment its
  \<^verbatim>\<open>indicator\<close>. The object is kept as the list \<^verbatim>\<open>Object.entries\<close> enumerates.
\<close>

record comment =
  indicator :: string

record video =
  comments :: "comment list"

record sentiment_data =
  videos :: "(string \<times> video) list option"

subsection \<open>calculateSentiments of CoinSentimentView\<close>

record sentiments =
  s_buy :: nat
  s_sell :: nat
  s_others :: nat
  s_total :: nat

text \<open>The body of the inner \<^verbatim>\<open>forEach\<close>, lines 98 to 102, on the counters
  \<^verbatim>\<open>(buy, sell, others)\<close>.\<close>

definition count_comment :: "comment \<Rightarrow> nat \<times> nat \<times> nat \<Rightarrow> nat \<times> nat \<times> nat" where
  "count_comment c counters =
     (case counters of (buy, sell, others) \<Rightarrow>
        if indicator c = ''buy'' then (buy + 1, sell, others)
        else if indicator c = ''sell'' then (buy, sell + 1, others)
        else (buy, sell, others + 1))"

fun count_comments :: "comment list \<Rightarrow> nat \<times> nat \<times> nat \<Rightarrow> nat \<times> nat \<times> nat" where
  "count_comments [] counters = counters"
| "count_comments (c # cs) counters = count_comments cs (count_comment c counters)"

text \<open>The outer \<^verbatim>\<open>forEach\<close> over \<^verbatim>\<open>Object.values(sentimentData.videos)\<close>, line 97.\<close>

fun count_videos :: "(string \<times> video) list \<Rightarrow> nat \<times> nat \<times> nat \<Rightarrow> nat \<times> nat \<times> nat" where
  "count_videos [] counters = counters"
| "count_videos (v # vs) counters = count_videos vs (count_comments (comments (snd v)) counters)"

definition calculateSentiments :: "sentiment_data option \<Rightarrow> sentiments" where
  "calculateSentiments sentimentData =
     (case sentimentData of
        None \<Rightarrow> \<lparr> s_buy = 0, s_sell = 0, s_others = 0, s_total = 0 \<rparr>
      | Some d \<Rightarrow>
          (case videos d of
             None \<Rightarrow> \<lparr> s_buy = 0, s_sell = 0, s_others = 0, s_total = 0 \<rparr>
           | Some vs \<Rightarrow>
               (case count_videos vs (0, 0, 0) of (buy, sell, others) \<Rightarrow>
                  \<lparr> s_buy = buy, s_sell = sell, s_others = others,
                    s_total = buy + sell + others \<rparr>)))"

text \<open>All comments of a data set, video after video.\<close>

definition all_comments :: "sentiment_data \<Rightarrow> comment list" where
  "all_comments d = (case videos d of None \<Rightarrow> [] | Some vs \<Rightarrow> concat (map (\<lambda>v. comments (snd v)) vs))"

definition demo_sentiment :: sentiment_data where
  "demo_sentiment =
     \<lparr> videos = Some
         [(''v1'', \<lparr> comments = [\<lparr> indicator = ''buy'' \<rparr>, \<lparr> indicator = ''sell'' \<rparr>,
                                 \<lparr> indicator = ''buy'' \<rparr>] \<rparr>),
          (''v2'', \<lparr> comments = [\<lparr> indicator = ''hold'' \<rparr>, \<lparr> indicator = ''buy'' \<rparr>] \<rparr>)] \<rparr>"

subsection \<open>processData of TopCoinsCard\<close>

text \<open>
  The percentages are JavaScript numbers: doubles. The model holds the value of a double as
  a rational number and rounds the result of every division, multiplication and
  subtraction to the nearest double, a tie to the one with an even significand, as the
  arithmetic of the language does. A double has 53 significant bits; \<open>floor_log2\<close> is the
  binary exponent of a positive number. The numbers that occur here, quotients of counts,
  their hundredfold and the differences of two of these, are zero or far inside the range
  of the normal doubles, and the counts themselves are whole numbers below \<open>2^53\<close>, which a
  double holds exactly.
\<close>

definition round_even :: "rat \<Rightarrow> int" where
  "round_even q =
     (let f = \<lfloor>q\<rfloor>; r = q - of_int f
      in if r < 1 / 2 then f else if 1 / 2 < r then f + 1 else if even f then f else f + 1)"

definition floor_log2 :: "rat \<Rightarrow> int" where
  "floor_log2 x =
     (let a = fst (quotient_of x); b = snd (quotient_of x); k = bitlen a - bitlen b
      in if 2 powi k \<le> x then k else k - 1)"

definition nearest_double :: "rat \<Rightarrow> rat" where
  "nearest_double x =
     (if x = 0 then 0
      else let e = floor_log2 \<bar>x\<bar> - 52
           in of_int (round_even (x * 2 powi (- e))) * 2 powi e)"

text \<open>The operators \<^verbatim>\<open>/\<close>, \<^verbatim>\<open>*\<close> and \<^verbatim>\<open>-\<close> on doubles. The code divides by a total that is
  greater than zero.\<close>

definition js_div :: "rat \<Rightarrow> rat \<Rightarrow> rat" where
  "js_div a b = nearest_double (a / b)"

definition js_mul :: "rat \<Rightarrow> rat \<Rightarrow> rat" where
  "js_mul a b = nearest_double (a * b)"

definition js_sub :: "rat \<Rightarrow> rat \<Rightarrow> rat" where
  "js_sub a b = nearest_double (a - b)"

record coin_sentiment =
  cs_count :: nat
  cs_total :: nat

record chart_entry =
  e_coin :: string
  e_percentage :: rat
  e_count :: nat

text \<open>The body of the \<^verbatim>\<open>forEach\<close> over the comments of a video, lines 29 to 34, on
  \<^verbatim>\<open>(sentimentCount, totalComments)\<close>; \<open>ty\<close> is the \<^verbatim>\<open>type\<close> of the card.\<close>

fun tally_comments :: "string \<Rightarrow> comment list \<Rightarrow> nat \<times> nat \<Rightarrow> nat \<times> nat" where
  "tally_comments ty [] acc = acc"
| "tally_comments ty (c # cs) acc =
     (case acc of (sentimentCount, totalComments) \<Rightarrow>
        tally_comments ty cs
          (if indicator c = ty then (sentimentCount + 1, totalComments + 1)
           else (sentimentCount, totalComments + 1)))"

text \<open>The \<^verbatim>\<open>forEach\<close> over the videos of a coin, line 27. A video of the type above always
  has its list of comments, so the test of line 28 is passed.\<close>

fun tally_videos :: "string \<Rightarrow> (string \<times> video) list \<Rightarrow> nat \<times> nat \<Rightarrow> nat \<times> nat" where
  "tally_videos ty [] acc = acc"
| "tally_videos ty (v # vs) acc = tally_videos ty vs (tally_comments ty (comments (snd v)) acc)"

text \<open>The assignment \<^verbatim>\<open>obj[key] = value\<close> on an object kept as the list of its entries: an
  existing key keeps its place, a new key goes to the end.\<close>

fun assign :: "string \<Rightarrow> 'v \<Rightarrow> (string \<times> 'v) list \<Rightarrow> (string \<times> 'v) list" where
  "assign k v [] = [(k, v)]"
| "assign k v (e # es) = (if fst e = k then (k, v) # es else e # assign k v es)"

text \<open>The \<^verbatim>\<open>forEach\<close> over \<^verbatim>\<open>Object.entries(data)\<close>, lines 22 to 45, on
  \<^verbatim>\<open>coinSentiments\<close>.\<close>

fun collect ::
  "string \<Rightarrow> (string \<times> sentiment_data) list \<Rightarrow> (string \<times> coin_sentiment) list
     \<Rightarrow> (string \<times> coin_sentiment) list"
where
  "collect ty [] coinSentiments = coinSentiments"
| "collect ty (entry # entries) coinSentiments =
     (case videos (snd entry) of
        None \<Rightarrow> collect ty entries coinSentiments
      | Some vs \<Rightarrow>
          (case tally_videos ty vs (0, 0) of (sentimentCount, totalComments) \<Rightarrow>
             if totalComments > 0 then
               collect ty entries
                 (assign (fst entry) \<lparr> cs_count = sentimentCount, cs_total = totalComments \<rparr>
                    coinSentiments)
             else collect ty entries coinSentiments))"

text \<open>\<^verbatim>\<open>Array.prototype.sort\<close> with a comparator: the order is that of the comparator, and
  entries the comparator does not tell apart keep their order (the sort is stable).\<close>

fun insert_by :: "('a \<Rightarrow> 'a \<Rightarrow> rat) \<Rightarrow> 'a \<Rightarrow> 'a list \<Rightarrow> 'a list" where
  "insert_by cmp x [] = [x]"
| "insert_by cmp x (y # ys) = (if cmp x y \<le> 0 then x # y # ys else y # insert_by cmp x ys)"

definition sort_by :: "('a \<Rightarrow> 'a \<Rightarrow> rat) \<Rightarrow> 'a list \<Rightarrow> 'a list" where
  "sort_by cmp xs = foldr (insert_by cmp) xs []"

text \<open>The entry of line 48 to 52 for a coin.\<close>

definition chart_entry_of :: "string \<times> coin_sentiment \<Rightarrow> chart_entry" where
  "chart_entry_of e =
     (case e of (coin, cs) \<Rightarrow>
        \<lparr> e_coin = (if length coin > 20 then take 20 coin @ ''...'' else coin),
          e_percentage = js_mul (js_div (of_nat (cs_count cs)) (of_nat (cs_total cs))) 100,
          e_count = cs_count cs \<rparr>)"

definition processData :: "string \<Rightarrow> (string \<times> sentiment_data) list option \<Rightarrow> chart_entry list" where
  "processData ty data =
     (case data of
        None \<Rightarrow> []
      | Some d \<Rightarrow>
          take 10
            (sort_by (\<lambda>a b. js_sub (e_percentage b) (e_percentage a))
               (map chart_entry_of (collect ty d []))))"

text \<open>The number of comments of a data set with a given indicator.\<close>

definition matching :: "string \<Rightarrow> sentiment_data \<Rightarrow> nat" where
  "matching ty d = length (filter (\<lambda>c. indicator c = ty) (all_comments d))"

text \<open>What \<^verbatim>\<open>coinSentiments\<close> holds for a coin: the counts of a coin of the data that has
  comments.\<close>

definition counted :: "string \<Rightarrow> (string \<times> sentiment_data) list \<Rightarrow> string \<times> coin_sentiment \<Rightarrow> bool" where
  "counted ty d e =
     (\<exists>sd. (fst e, sd) \<in> set d \<and> 0 < length (all_comments sd)
           \<and> cs_total (snd e) = length (all_comments sd) \<and> cs_count (snd e) = matching ty sd)"

text \<open>A coin with 7 comments of 100 that say buy.\<close>

definition demo_rounding_data :: "(string \<times> sentiment_data) list" where
  "demo_rounding_data =
     [(''ADA'', \<lparr> videos = Some
         [(''v5'', \<lparr> comments = replicate 7 \<lparr> indicator = ''buy'' \<rparr>
                                 @ replicate 93 \<lparr> indicator = ''sell'' \<rparr> \<rparr>)] \<rparr>)]"

definition demo_coins_data :: "(string \<times> sentiment_data) list" where
  "demo_coins_data =
     [(''BTC'', demo_sentiment),
      (''DOGE'', \<lparr> videos = Some [(''v3'', \<lparr> comments = [] \<rparr>)] \<rparr>),
      (''ETH'', \<lparr> videos = Some [(''v4'', \<lparr> comments = [\<lparr> indicator = ''buy'' \<rparr>] \<rparr>)] \<rparr>),
      (''XRP'', \<lparr> videos = None \<rparr>)]"

section \<open>Trading suggestions\<close>

text \<open>
  The component \<^verbatim>\<open>TradingSuggestions\<close> keeps a trade view (its id, the index of the current
  coin) and writes to the tables \<^verbatim>\<open>trade_views\<close> and \<^verbatim>\<open>coin_indicators\<close> of the hosted
  database. The model holds the state of the component, the notifications it has shown and
  the rows of the two tables in one record. The list \<open>coins\<close> is what \<^verbatim>\<open>useCoinData\<close> returns;
  it is a parameter.
\<close>

record coin =
  c_symbol :: string
  c_strategy :: string
  c_indicators :: string

record trade_view_state =
  view_id :: "string option"
  currentIndex :: nat
  view_coins :: "coin list"

record toast =
  title :: string
  description :: string
  variant :: "string option"

record trade_view_row =
  tv_id :: string
  tv_name :: string
  tv_user_id :: string
  tv_status :: string

record coin_indicator_row =
  trade_view_id :: string
  coin_symbol :: string
  sentiment :: string
  indicators :: string
  user_response :: "string option"

text \<open>An insert that was sent and has not settled yet, with the \<^verbatim>\<open>tradeView\<close> and the
  \<^verbatim>\<open>currentCoin\<close> of the render whose handler sent it: the handler goes on with these when
  the insert settles.\<close>

datatype pending = AwaitNext trade_view_state coin | AwaitBuy trade_view_state coin

record component =
  started :: bool
  isTradeNameDialogOpen :: bool
  tradeView :: trade_view_state
  toasts :: "toast list"
  trade_views :: "trade_view_row list"
  coin_indicators :: "coin_indicator_row list"
  pending :: "pending list"

definition show_toast :: "toast \<Rightarrow> component \<Rightarrow> component" where
  "show_toast t st = st\<lparr> toasts := toasts st @ [t] \<rparr>"

subsection \<open>handleCreateTradeView\<close>

record session =
  session_user_id :: string

text \<open>What the insert into \<^verbatim>\<open>trade_views\<close> comes to: an error and no row; a row with the id
  the database gave it, of which nothing is returned; a row that is returned.\<close>

datatype insert_answer = InsertError string | InsertedNoData string | Inserted string

text \<open>The answers of the backend that the rows of the table do not determine: the session,
  a failure of the query for an existing view, the outcome of the insert.\<close>

record create_answers =
  getSession :: "session option \<times> string option"
  check_fails :: "string option"
  insertAnswer :: insert_answer

text \<open>\<^verbatim>\<open>maybeSingle()\<close>: no row gives no data, one row gives the row, more rows give an
  error.\<close>

fun maybeSingle :: "'a list \<Rightarrow> 'a option \<times> string option" where
  "maybeSingle [] = (None, None)"
| "maybeSingle [r] = (Some r, None)"
| "maybeSingle (r # r' # rs) =
     (None, Some ''JSON object requested, multiple (or no) rows returned'')"

text \<open>The \<^verbatim>\<open>catch\<close> of lines 96 to 103.\<close>

definition create_failed :: "string \<Rightarrow> component \<Rightarrow> component" where
  "create_failed message st =
     show_toast \<lparr> title = ''Error'',
                  description = (if message = [] then ''Failed to start analysis. Please try again.''
                                 else message),
                  variant = Some ''destructive'' \<rparr> st"

definition handleCreateTradeView ::
  "coin list \<Rightarrow> create_answers \<Rightarrow> string \<Rightarrow> component \<Rightarrow> component"
where
  "handleCreateTradeView coins ans name st =
     (let sessionData = fst (getSession ans); sessionError = snd (getSession ans)
      in if sessionError \<noteq> None then create_failed (the sessionError) st
         else if sessionData = None then
           show_toast \<lparr> title = ''Error'', description = ''Please sign in to start analysis'',
                        variant = Some ''destructive'' \<rparr> st
         else
           (let uid = session_user_id (the sessionData);
                answer = (case check_fails ans of
                            Some e \<Rightarrow> (None, Some e)
                          | None \<Rightarrow>
                              maybeSingle
                                (filter (\<lambda>r. tv_user_id r = uid \<and> tv_name r = name) (trade_views st)));
                existingView = fst answer; checkError = snd answer
            in if checkError \<noteq> None then create_failed (the checkError) st
               else if existingView \<noteq> None then
                 show_toast
                   \<lparr> title = ''Error'',
                     description = ''A trading view with this name already exists. Please choose a different name.'',
                     variant = Some ''destructive'' \<rparr> st
               else
                 (case insertAnswer ans of
                    InsertError e \<Rightarrow> create_failed e st
                  | InsertedNoData new_id \<Rightarrow>
                      create_failed ''No data returned from insert''
                        (st\<lparr> trade_views := trade_views st
                               @ [\<lparr> tv_id = new_id, tv_name = name, tv_user_id = uid,
                                    tv_status = ''active'' \<rparr>] \<rparr>)
                  | Inserted new_id \<Rightarrow>
                      show_toast
                        \<lparr> title = ''Analysis Started'',
                          description = ''Analyzing coins for trading suggestions...'',
                          variant = None \<rparr>
                        (st\<lparr> trade_views := trade_views st
                               @ [\<lparr> tv_id = new_id, tv_name = name, tv_user_id = uid,
                                    tv_status = ''active'' \<rparr>],
                            tradeView := \<lparr> view_id = Some new_id, currentIndex = 0,
                                           view_coins = coins \<rparr>,
                            started := True,
                            isTradeNameDialogOpen := False \<rparr>))))"

subsection \<open>handleNext and handleBuy\<close>

text \<open>
  Both handlers are asynchronous: a call runs up to its \<^verbatim>\<open>await\<close> of the insert and returns;
  the rest runs when the insert settles. In between the component is not rendered anew, so
  a further click runs the handlers of the same render. The three ways an insert settles:
  the row is stored; the database returns an error, which the handlers do not read; the
  promise rejects.
\<close>

datatype insert_result = Stored | Rejected string | Throws string

definition currentCoin :: "coin list \<Rightarrow> trade_view_state \<Rightarrow> coin option" where
  "currentCoin coins tv =
     (if currentIndex tv < length coins then Some (coins ! currentIndex tv) else None)"

definition indicator_row :: "string \<Rightarrow> coin \<Rightarrow> string option \<Rightarrow> coin_indicator_row" where
  "indicator_row view c response =
     \<lparr> trade_view_id = view, coin_symbol = c_symbol c, sentiment = c_strategy c,
       indicators = c_indicators c, user_response = response \<rparr>"

definition settle_insert :: "insert_result \<Rightarrow> coin_indicator_row \<Rightarrow> component \<Rightarrow> component" where
  "settle_insert result row st =
     (case result of
        Stored \<Rightarrow> st\<lparr> coin_indicators := coin_indicators st @ [row] \<rparr>
      | _ \<Rightarrow> st)"

text \<open>\<^verbatim>\<open>handleNext\<close> up to the \<^verbatim>\<open>await\<close> of line 110; \<open>tv\<close> is the \<^verbatim>\<open>tradeView\<close> of the render
  the handler belongs to.\<close>

definition handleNext_call :: "coin list \<Rightarrow> trade_view_state \<Rightarrow> component \<Rightarrow> component" where
  "handleNext_call coins tv st =
     (if view_id tv = None \<or> view_id tv = Some [] then st
      else case currentCoin coins tv of
             None \<Rightarrow> st
           | Some c \<Rightarrow> st\<lparr> pending := pending st @ [AwaitNext tv c] \<rparr>)"

text \<open>\<^verbatim>\<open>handleNext\<close> from line 121 on, and its \<^verbatim>\<open>catch\<close>. The test reads the index of the
  render, the update adds one to the index of the state as it is then.\<close>

definition handleNext_resume ::
  "coin list \<Rightarrow> trade_view_state \<Rightarrow> coin \<Rightarrow> insert_result \<Rightarrow> component \<Rightarrow> component"
where
  "handleNext_resume coins tv c result st =
     (case result of
        Throws message \<Rightarrow>
          show_toast \<lparr> title = ''Error'',
                       description = (if message = [] then ''Failed to save analysis'' else message),
                       variant = Some ''destructive'' \<rparr> st
      | _ \<Rightarrow>
          (let st' = settle_insert result (indicator_row (the (view_id tv)) c None) st
           in if int (currentIndex tv) < int (length coins) - 1 then
                st'\<lparr> tradeView := (tradeView st')\<lparr> currentIndex := currentIndex (tradeView st') + 1 \<rparr> \<rparr>
              else
                show_toast \<lparr> title = ''Analysis Complete'',
                             description = ''You've reviewed all available coins.'',
                             variant = None \<rparr> st'))"

text \<open>\<^verbatim>\<open>handleBuy\<close> up to the \<^verbatim>\<open>await\<close> of line 146.\<close>

definition handleBuy_call :: "coin list \<Rightarrow> trade_view_state \<Rightarrow> component \<Rightarrow> component" where
  "handleBuy_call coins tv st =
     (if view_id tv = None \<or> view_id tv = Some [] then st
      else case currentCoin coins tv of
             None \<Rightarrow> st
           | Some c \<Rightarrow> st\<lparr> pending := pending st @ [AwaitBuy tv c] \<rparr>)"

text \<open>\<^verbatim>\<open>handleBuy\<close> from line 158 on, and its \<^verbatim>\<open>catch\<close>: the notification, then the call of
  \<^verbatim>\<open>handleNext\<close> of the same render.\<close>

definition handleBuy_resume ::
  "coin list \<Rightarrow> trade_view_state \<Rightarrow> coin \<Rightarrow> insert_result \<Rightarrow> component \<Rightarrow> component"
where
  "handleBuy_resume coins tv c result st =
     (case result of
        Throws message \<Rightarrow>
          show_toast \<lparr> title = ''Error'',
                       description = (if message = [] then ''Failed to record trade'' else message),
                       variant = Some ''destructive'' \<rparr> st
      | _ \<Rightarrow>
          handleNext_call coins tv
            (show_toast \<lparr> title = ''Trade Recorded'',
                          description = ''Recorded buy decision for '' @ c_symbol c,
                          variant = None \<rparr>
               (settle_insert result (indicator_row (the (view_id tv)) c (Some ''buy'')) st)))"

text \<open>What happens to the component: a click on one of the two buttons of the current
  render, or the settling of the pending insert at a position.\<close>

datatype ui_event = ClickNext | ClickBuy | Settle nat insert_result

fun step :: "coin list \<Rightarrow> component \<Rightarrow> ui_event \<Rightarrow> component" where
  "step coins st ClickNext = handleNext_call coins (tradeView st) st"
| "step coins st ClickBuy = handleBuy_call coins (tradeView st) st"
| "step coins st (Settle k result) =
     (if k < length (pending st) then
        (let st' = st\<lparr> pending := take k (pending st) @ drop (Suc k) (pending st) \<rparr>
         in case pending st ! k of
              AwaitNext tv c \<Rightarrow> handleNext_resume coins tv c result st'
            | AwaitBuy tv c \<Rightarrow> handleBuy_resume coins tv c result st')
      else st)"

definition run :: "coin list \<Rightarrow> component \<Rightarrow> ui_event list \<Rightarrow> component" where
  "run coins st evs = foldl (step coins) st evs"

text \<open>A call that runs to its end before anything else happens: \<^verbatim>\<open>handleNext\<close> with the
  outcome of its insert, \<^verbatim>\<open>handleBuy\<close> with the outcomes of its insert and of the insert of
  the \<^verbatim>\<open>handleNext\<close> it calls.\<close>

definition handleNext :: "coin list \<Rightarrow> insert_result \<Rightarrow> component \<Rightarrow> component" where
  "handleNext coins result st = run coins st [ClickNext, Settle (length (pending st)) result]"

definition handleBuy :: "coin list \<Rightarrow> insert_result \<Rightarrow> insert_result \<Rightarrow> component \<Rightarrow> component" where
  "handleBuy coins result result' st =
     run coins st [ClickBuy, Settle (length (pending st)) result,
                   Settle (length (pending st)) result']"

datatype call = Next insert_result | Buy insert_result insert_result

fun run_call :: "coin list \<Rightarrow> component \<Rightarrow> call \<Rightarrow> component" where
  "run_call coins st (Next result) = handleNext coins result st"
| "run_call coins st (Buy result result') = handleBuy coins result result' st"

subsection \<open>A component to evaluate the handlers on\<close>

definition demo_coins :: "coin list" where
  "demo_coins =
     [\<lparr> c_symbol = ''BTCUSDT'', c_strategy = ''buy'', c_indicators = ''rsi'' \<rparr>,
      \<lparr> c_symbol = ''ETHUSDT'', c_strategy = ''hold'', c_indicators = ''macd'' \<rparr>]"

definition demo_component :: component where
  "demo_component =
     \<lparr> started = False, isTradeNameDialogOpen = True,
       tradeView = \<lparr> view_id = None, currentIndex = 0, view_coins = [] \<rparr>,
       toasts = [],
       trade_views = [\<lparr> tv_id = ''7'', tv_name = ''swing'', tv_user_id = ''u1'',
                        tv_status = ''active'' \<rparr>],
       coin_indicators = [],
       pending = [] \<rparr>"

definition demo_answers :: create_answers where
  "demo_answers =
     \<lparr> getSession = (Some \<lparr> session_user_id = ''u1'' \<rparr>, None),
       check_fails = None,
       insertAnswer = Inserted ''8'' \<rparr>"

definition demo_started :: component where
  "demo_started = handleCreateTradeView demo_coins demo_answers ''scalp'' demo_component"

section \<open>Properties of the whale-trade function\<close>

subsection \<open>The effects of the loops\<close>

lemma upserts_of_append: "upserts_of (xs @ ys) = upserts_of xs @ upserts_of ys"
  by (induction xs rule: upserts_of.induct) simp_all

lemma fetches_of_append: "fetches_of (xs @ ys) = fetches_of xs @ fetches_of ys"
  by (induction xs rule: fetches_of.induct) simp_all

lemma upserts_of_concat: "upserts_of (concat xss) = concat (map upserts_of xss)"
  by (induction xss) (simp_all add: upserts_of_append)

lemma fetches_of_concat: "fetches_of (concat xss) = concat (map fetches_of xss)"
  by (induction xss) (simp_all add: fetches_of_append)

lemma is_whale_iff:
  "is_whale rt t =
     num_ge rt (num_mul rt (parseFloat rt (price t)) (parseFloat rt (qty t))) (num_lit rt 100000)"
  by (simp add: is_whale_def WHALE_THRESHOLD_def)

lemma is_whale_fun:
  "is_whale rt =
     (\<lambda>t. num_ge rt (num_mul rt (parseFloat rt (price t)) (parseFloat rt (qty t))) (num_lit rt 100000))"
  by (rule ext) (simp add: is_whale_iff)

lemma store_whales_fetches: "fetches_of (fst (store_whales rt env uid smb ts)) = []"
  by (induction ts) (simp_all add: split_beta Let_def split: option.splits)

lemma store_whales_follow:
  "upserts_follow_fetch (Some smb) (fst (store_whales rt env uid smb ts) @ rest)
     = upserts_follow_fetch (Some smb) rest"
  by (induction ts) (simp_all add: split_beta Let_def split: option.splits)

lemma store_whales_renderable:
  assumes "\<forall>t \<in> set ts. toISOString rt (time t) \<noteq> None"
  shows "snd (store_whales rt env uid smb ts) = None
       \<and> upserts_of (fst (store_whales rt env uid smb ts)) = map (whale_row_of rt uid smb) ts"
  using assms
proof (induction ts)
  case Nil
  then show ?case by simp
next
  case (Cons t ts)
  then obtain stamp where st: "toISOString rt (time t) = Some stamp" by auto
  from Cons have ih: "snd (store_whales rt env uid smb ts) = None"
    "upserts_of (fst (store_whales rt env uid smb ts)) = map (whale_row_of rt uid smb) ts"
    by auto
  show ?case using st ih
    by (simp add: whale_row_of_def split_beta Let_def split: option.splits)
qed

text \<open>What the rows of a run do not depend on: the answers of the storage.\<close>

lemma store_whales_upserts_any_storage:
  "upserts_of (fst (store_whales rt (env\<lparr>upsert_whale_trade := u\<rparr>) uid smb ts))
     = upserts_of (fst (store_whales rt env uid smb ts))
   \<and> snd (store_whales rt (env\<lparr>upsert_whale_trade := u\<rparr>) uid smb ts)
     = snd (store_whales rt env uid smb ts)"
  by (induction ts) (simp_all add: split_beta Let_def split: option.splits)

lemma process_pair_fetches: "fetches_of (fst (process_pair rt env uid key smb)) = [smb]"
  by (simp add: process_pair_def split_beta Let_def fetches_of_append store_whales_fetches
      split: trades_response.splits option.splits)

lemma process_pair_follow:
  "upserts_follow_fetch cur (fst (process_pair rt env uid key smb) @ rest)
     = upserts_follow_fetch (Some smb) rest"
  by (simp add: process_pair_def split_beta Let_def store_whales_follow
      split: trades_response.splits option.splits)

lemma process_pair_failed:
  assumes "fetch_failed (fetch_trades env smb key)"
  shows "snd (process_pair rt env uid key smb) = []"
    and "upserts_of (fst (process_pair rt env uid key smb)) = []"
    and "\<exists>msg \<in> {''Failed to fetch trades for '' @ smb @ '':'', ''Error fetching trades for '' @ smb @ '':''}.
           fst (process_pair rt env uid key smb) = [FetchTrades smb key, ConsoleError msg]"
  using assms
  by (auto simp: process_pair_def fetch_failed_def split: trades_response.splits)

lemma process_pair_renderable:
  assumes "case fetch_trades env smb key of
             OkJson tradeData \<Rightarrow>
               (\<forall>t \<in> set tradeData. is_whale rt t \<longrightarrow> toISOString rt (time t) \<noteq> None)
           | _ \<Rightarrow> True"
  shows "upserts_of (fst (process_pair rt env uid key smb))
           = map (whale_row_of rt uid smb) (qualifying rt env key smb)"
    and "snd (process_pair rt env uid key smb) = qualifying rt env key smb"
proof -
  show "upserts_of (fst (process_pair rt env uid key smb))
           = map (whale_row_of rt uid smb) (qualifying rt env key smb)"
  proof (cases "fetch_trades env smb key")
    case (OkJson tradeData)
    with assms have "\<forall>t \<in> set (filter (is_whale rt) tradeData). toISOString rt (time t) \<noteq> None"
      by simp
    from store_whales_renderable [OF this, of env uid smb] OkJson show ?thesis
      by (simp add: process_pair_def qualifying_def split_beta Let_def upserts_of_append is_whale_fun)
  qed (simp_all add: process_pair_def qualifying_def)
  show "snd (process_pair rt env uid key smb) = qualifying rt env key smb"
  proof (cases "fetch_trades env smb key")
    case (OkJson tradeData)
    with assms have "\<forall>t \<in> set (filter (is_whale rt) tradeData). toISOString rt (time t) \<noteq> None"
      by simp
    from store_whales_renderable [OF this, of env uid smb] OkJson show ?thesis
      by (simp add: process_pair_def qualifying_def split_beta Let_def is_whale_fun)
  qed (simp_all add: process_pair_def qualifying_def)
qed

lemma process_pair_upserts_any_storage:
  "upserts_of (fst (process_pair rt (env\<lparr>upsert_whale_trade := u\<rparr>) uid key smb))
     = upserts_of (fst (process_pair rt env uid key smb))"
  by (simp add: process_pair_def split_beta Let_def upserts_of_append
      store_whales_upserts_any_storage split: trades_response.splits option.splits)

lemma pair_loop_fst:
  "fst (pair_loop rt env uid key syms) = concat (map (\<lambda>s. fst (process_pair rt env uid key s)) syms)"
  by (induction syms) (simp_all add: split_beta)

lemma pair_loop_snd:
  "snd (pair_loop rt env uid key syms) = concat (map (\<lambda>s. snd (process_pair rt env uid key s)) syms)"
  by (induction syms) (simp_all add: split_beta)

lemma pair_loop_fetches: "fetches_of (fst (pair_loop rt env uid key syms)) = syms"
  by (induction syms) (simp_all add: split_beta fetches_of_append process_pair_fetches)

lemma pair_loop_follow:
  "upserts_follow_fetch cur (fst (pair_loop rt env uid key syms) @ rest)
     = upserts_follow_fetch (if syms = [] then cur else Some (last syms)) rest"
  by (induction syms arbitrary: cur) (simp_all add: split_beta process_pair_follow)

lemma pair_loop_renderable:
  assumes "times_renderable rt env key syms"
  shows "upserts_of (fst (pair_loop rt env uid key syms))
           = concat (map (\<lambda>s. map (whale_row_of rt uid s) (qualifying rt env key s)) syms)"
    and "snd (pair_loop rt env uid key syms) = concat (map (qualifying rt env key) syms)"
  using assms
  by (induction syms)
     (simp_all add: split_beta upserts_of_append times_renderable_def process_pair_renderable)

lemma pair_loop_upserts_any_storage:
  "upserts_of (fst (pair_loop rt (env\<lparr>upsert_whale_trade := u\<rparr>) uid key syms))
     = upserts_of (fst (pair_loop rt env uid key syms))"
  by (induction syms) (simp_all add: split_beta upserts_of_append process_pair_upserts_any_storage)

lemma serve_authenticated:
  assumes "authenticated env req = Some (usr, keys)"
      and "fetch_exchangeInfo env = Inr symbols"
  shows "serve rt env req =
           ([ConsoleLog ''Initializing Supabase client...'', ConsoleLog ''Authenticating user...'',
             GetUser (replace_first ''Bearer '' [] (the (req_authorization req))),
             ConsoleLog ''Fetching API keys for user:'', SelectApiKeys (user_uid usr),
             ConsoleLog ''Fetching exchange info from Binance...'', FetchExchangeInfo,
             ConsoleLog ''Fetching trades for USDT pairs...'']
            @ fst (pair_loop rt env (user_uid usr) (binance_api_key keys) (take 10 (usdtPairs symbols)))
            @ [ConsoleLog ''Completed processing whale trades''],
            \<lparr> resp_status = 200, resp_headers = json_headers,
              resp_body = SuccessBody
                (snd (pair_loop rt env (user_uid usr) (binance_api_key keys) (take 10 (usdtPairs symbols)))) \<rparr>)"
  using assms
  by (auto simp: authenticated_def serve_def serve_try_def serve_keys_def serve_whales_def Let_def
      split: if_splits option.splits prod.splits)

lemma serve_info_fails:
  assumes "authenticated env req = Some (usr, keys)"
      and "fetch_exchangeInfo env = Inl e"
  shows "serve rt env req =
           ([ConsoleLog ''Initializing Supabase client...'', ConsoleLog ''Authenticating user...'',
             GetUser (replace_first ''Bearer '' [] (the (req_authorization req))),
             ConsoleLog ''Fetching API keys for user:'', SelectApiKeys (user_uid usr),
             ConsoleLog ''Fetching exchange info from Binance...'', FetchExchangeInfo,
             ConsoleError ''Error in fetch-binance-whales:''],
            \<lparr> resp_status = 500, resp_headers = json_headers,
              resp_body = ErrorBody (error_message e) \<rparr>)"
  using assms
  by (auto simp: authenticated_def serve_def serve_try_def serve_keys_def serve_whales_def Let_def
      split: if_splits option.splits prod.splits)

lemma serve_not_authenticated:
  assumes "authenticated env req = None"
  shows "fetches_of (fst (serve rt env req)) = []"
    and "upserts_of (fst (serve rt env req)) = []"
    and "FetchExchangeInfo \<notin> set (fst (serve rt env req))"
    and "upserts_follow_fetch cur (fst (serve rt env req))"
  using assms
  by (auto simp: authenticated_def serve_def serve_try_def serve_keys_def Let_def
      split: if_splits option.splits prod.splits)

lemma authenticated_any_storage:
  "authenticated (env\<lparr>upsert_whale_trade := u\<rparr>) req = authenticated env req"
  by (simp add: authenticated_def split_beta Let_def cong: if_cong option.case_cong)

lemma qualifying_holds:
  "t \<in> set (qualifying rt env key s) \<Longrightarrow>
     num_ge rt (num_mul rt (parseFloat rt (price t)) (parseFloat rt (qty t))) (num_lit rt 100000)"
  by (auto simp: qualifying_def split: trades_response.splits)

lemmas demo_defs = demo_env_def demo_request_def demo_symbols_def demo_trades_def int_runtime_def
  digit_of_def digit_char_def decimal.simps

lemma demo_authenticated:
  "authenticated demo_env demo_request =
     Some (\<lparr> user_uid = ''u1'' \<rparr>, \<lparr> binance_api_key = ''k'', binance_api_secret = ''s'' \<rparr>)"
  by (simp add: authenticated_def demo_defs)

lemma demo_renderable:
  "times_renderable int_runtime demo_env ''k'' (take 10 (usdtPairs demo_symbols))"
  by (simp add: times_renderable_def usdtPairs_def is_whale_def WHALE_THRESHOLD_def demo_defs)

lemma demo_pairs: "take 10 (usdtPairs demo_symbols) = [''BTCUSDT'', ''ETHUSDT'']"
  by (simp add: usdtPairs_def demo_symbols_def)

lemma demo_qualifying:
  "qualifying int_runtime demo_env ''k'' ''BTCUSDT'' =
     [\<lparr> price = ''50000'', qty = ''3'', isBuyerMaker = True, time = 1700000000000 \<rparr>,
      \<lparr> price = ''100000'', qty = ''1'', isBuyerMaker = False, time = 1700000000002 \<rparr>]"
  "qualifying int_runtime demo_env ''k'' ''ETHUSDT'' = []"
  by (simp_all add: qualifying_def demo_defs)

lemma demo_rows:
  "whale_row_of int_runtime ''u1'' ''BTCUSDT''
     \<lparr> price = ''50000'', qty = ''3'', isBuyerMaker = True, time = 1700000000000 \<rparr>
     = \<lparr> w_user_id = ''u1'', w_symbol = ''BTCUSDT'', w_amount = Some 150000, w_price = Some 50000,
         w_trade_type = ''buy'', w_timestamp = ''1700000000000'' \<rparr>"
  "whale_row_of int_runtime ''u1'' ''BTCUSDT''
     \<lparr> price = ''100000'', qty = ''1'', isBuyerMaker = False, time = 1700000000002 \<rparr>
     = \<lparr> w_user_id = ''u1'', w_symbol = ''BTCUSDT'', w_amount = Some 100000, w_price = Some 100000,
         w_trade_type = ''sell'', w_timestamp = ''1700000000002'' \<rparr>"
  by (simp_all add: whale_row_of_def demo_defs)

subsection \<open>The claims about the whale-trade function\<close>

text \<open>
  Claim C1. In an invocation that passes authentication and finds the API keys, the rows
  upserted are, pair by pair and trade by trade, the rows of the trades whose value
  \<^verbatim>\<open>parseFloat(price) * parseFloat(qty)\<close> is at least 100000; a trade the exchange returned
  for a pair has its row upserted if and only if its value reaches the threshold. The row
  carries that value as amount, the parsed price as price, and \<^verbatim>\<open>'buy'\<close> as trade type when
  \<^verbatim>\<open>isBuyerMaker\<close> holds and \<^verbatim>\<open>'sell'\<close> otherwise. The pairs are processed to the end: the
  times of the trades can be rendered.
\<close>

theorem whale_upsert_iff_threshold:
  assumes auth: "authenticated env req = Some (usr, keys)"
      and info: "fetch_exchangeInfo env = Inr symbols"
      and times: "times_renderable rt env (binance_api_key keys) (take 10 (usdtPairs symbols))"
  shows "upserts_of (fst (serve rt env req)) =
           concat (map (\<lambda>s. map (whale_row_of rt (user_uid usr) s)
                                (qualifying rt env (binance_api_key keys) s))
                       (take 10 (usdtPairs symbols)))
       \<and> (\<forall>s \<in> set (take 10 (usdtPairs symbols)). \<forall>tradeData.
            fetch_trades env s (binance_api_key keys) = OkJson tradeData \<longrightarrow>
            (\<forall>t \<in> set tradeData.
               (\<lparr> w_user_id = user_uid usr, w_symbol = s,
                   w_amount = num_mul rt (parseFloat rt (price t)) (parseFloat rt (qty t)),
                   w_price = parseFloat rt (price t),
                   w_trade_type = (if isBuyerMaker t then ''buy'' else ''sell''),
                   w_timestamp = the (toISOString rt (time t)) \<rparr>
                  \<in> set (upserts_of (fst (serve rt env req))))
               = num_ge rt (num_mul rt (parseFloat rt (price t)) (parseFloat rt (qty t)))
                   (num_lit rt 100000)))"
proof -
  let ?key = "binance_api_key keys"
  let ?pairs = "take 10 (usdtPairs symbols)"
  let ?P = "\<lambda>t. num_ge rt (num_mul rt (parseFloat rt (price t)) (parseFloat rt (qty t)))
                   (num_lit rt 100000)"
  have rows: "upserts_of (fst (serve rt env req)) =
           concat (map (\<lambda>s. map (whale_row_of rt (user_uid usr) s) (qualifying rt env ?key s)) ?pairs)"
    by (simp add: serve_authenticated [OF auth info] upserts_of_append
        pair_loop_renderable(1) [OF times])
  have iff: "(whale_row_of rt (user_uid usr) s t \<in> set (upserts_of (fst (serve rt env req)))) = ?P t"
    if s: "s \<in> set ?pairs" and ok: "fetch_trades env s ?key = OkJson tradeData"
      and t: "t \<in> set tradeData" for s tradeData t
  proof
    assume "whale_row_of rt (user_uid usr) s t \<in> set (upserts_of (fst (serve rt env req)))"
    then obtain s' t' where t': "t' \<in> set (qualifying rt env ?key s')"
      and eq: "whale_row_of rt (user_uid usr) s' t' = whale_row_of rt (user_uid usr) s t"
      by (auto simp: rows)
    from eq have "w_amount (whale_row_of rt (user_uid usr) s' t')
                    = w_amount (whale_row_of rt (user_uid usr) s t)"
      by simp
    then have "num_mul rt (parseFloat rt (price t')) (parseFloat rt (qty t'))
                 = num_mul rt (parseFloat rt (price t)) (parseFloat rt (qty t))"
      by (simp add: whale_row_of_def)
    with qualifying_holds [OF t'] show "?P t" by simp
  next
    assume "?P t"
    with ok t have "t \<in> set (qualifying rt env ?key s)"
      by (simp add: qualifying_def)
    with s show "whale_row_of rt (user_uid usr) s t \<in> set (upserts_of (fst (serve rt env req)))"
      by (auto simp: rows)
  qed
  from rows iff show ?thesis
    by (simp add: whale_row_of_def)
qed

text \<open>The theorem at the sample environment: of three trades of the first pair, the two
  worth 150000 and 100000 are upserted, the one worth 50000 is not.\<close>

theorem whale_upsert_iff_threshold_witness:
  "authenticated demo_env demo_request =
     Some (\<lparr> user_uid = ''u1'' \<rparr>, \<lparr> binance_api_key = ''k'', binance_api_secret = ''s'' \<rparr>)
   \<and> fetch_exchangeInfo demo_env = Inr demo_symbols
   \<and> times_renderable int_runtime demo_env ''k'' (take 10 (usdtPairs demo_symbols))
   \<and> upserts_of (fst (serve int_runtime demo_env demo_request)) =
       [\<lparr> w_user_id = ''u1'', w_symbol = ''BTCUSDT'', w_amount = Some 150000, w_price = Some 50000,
          w_trade_type = ''buy'', w_timestamp = ''1700000000000'' \<rparr>,
        \<lparr> w_user_id = ''u1'', w_symbol = ''BTCUSDT'', w_amount = Some 100000, w_price = Some 100000,
          w_trade_type = ''sell'', w_timestamp = ''1700000000002'' \<rparr>]"
proof -
  have info: "fetch_exchangeInfo demo_env = Inr demo_symbols"
    by (simp add: demo_env_def)
  have times: "times_renderable int_runtime demo_env
                 (binance_api_key \<lparr> binance_api_key = ''k'', binance_api_secret = ''s'' \<rparr>)
                 (take 10 (usdtPairs demo_symbols))"
    using demo_renderable by simp
  from whale_upsert_iff_threshold [OF demo_authenticated info times]
  have "upserts_of (fst (serve int_runtime demo_env demo_request)) =
          concat (map (\<lambda>s. map (whale_row_of int_runtime ''u1'' s) (qualifying int_runtime demo_env ''k'' s))
                      (take 10 (usdtPairs demo_symbols)))"
    by simp
  then show ?thesis
    using demo_authenticated info demo_renderable
    by (simp add: demo_pairs demo_qualifying demo_rows)
qed

text \<open>
  Claim C2. In every invocation the pairs whose trades are fetched are, in this order, the
  first ten entries of the exchange info with quote asset USDT and status TRADING (none
  when the invocation does not get that far), so at most ten; and every upsert belongs to
  the pair fetched last before it: the work on one pair is over when the next is fetched.
\<close>

theorem fetches_first_ten_usdt_pairs:
  "fetches_of (fst (serve rt env req)) =
     (case (authenticated env req, fetch_exchangeInfo env) of
        (Some auth, Inr symbols) \<Rightarrow>
          take 10 (map symbol
                     (filter (\<lambda>s. quoteAsset s = ''USDT'' \<and> status s = ''TRADING'') symbols))
      | _ \<Rightarrow> [])
   \<and> length (fetches_of (fst (serve rt env req))) \<le> 10
   \<and> upserts_follow_fetch None (fst (serve rt env req))"
proof (cases "authenticated env req")
  case None
  then show ?thesis
    by (simp add: serve_not_authenticated)
next
  case (Some auth)
  obtain usr keys where auth: "authenticated env req = Some (usr, keys)"
    using Some by (cases auth) simp
  show ?thesis
  proof (cases "fetch_exchangeInfo env")
    case (Inl e)
    then show ?thesis
      by (simp add: auth serve_info_fails [OF auth Inl])
  next
    case (Inr symbols)
    have "upserts_follow_fetch (Some ''x'') [ConsoleLog ''Completed processing whale trades'' :: 'a event]"
      by simp
    then show ?thesis
      using Inr
      by (simp add: auth serve_authenticated [OF auth Inr] fetches_of_append pair_loop_fetches
          pair_loop_follow usdtPairs_def)
  qed
qed

theorem fetches_first_ten_usdt_pairs_witness:
  "fetches_of (fst (serve int_runtime demo_env demo_request)) = [''BTCUSDT'', ''ETHUSDT'']
   \<and> upserts_follow_fetch None (fst (serve int_runtime demo_env demo_request))"
proof -
  have info: "fetch_exchangeInfo demo_env = Inr demo_symbols"
    by (simp add: demo_env_def)
  from fetches_first_ten_usdt_pairs [of int_runtime demo_env demo_request]
  show ?thesis
    by (simp add: demo_authenticated info demo_symbols_def)
qed

text \<open>
  Claim C3. When the fetch of the trades of one pair fails (the response is not ok, or the
  fetch or the reading of its body throws), the run is the run on the pairs before it, the
  one fetch of the failed pair with one error log that names it, and the run on the pairs
  after it: no second fetch of the pair, no upsert for it, and what was upserted for the
  other pairs is what a run without the failed pair upserts. The response is the success
  response with the whale trades of the other pairs.
\<close>

theorem failed_pair_is_logged_and_skipped:
  assumes auth: "authenticated env req = Some (usr, keys)"
      and info: "fetch_exchangeInfo env = Inr symbols"
      and pairs: "take 10 (usdtPairs symbols) = before @ smb # after"
      and failed: "fetch_failed (fetch_trades env smb (binance_api_key keys))"
  shows "(\<exists>msg \<in> {''Failed to fetch trades for '' @ smb @ '':'',
                   ''Error fetching trades for '' @ smb @ '':''}.
           fst (serve rt env req) =
             [ConsoleLog ''Initializing Supabase client...'', ConsoleLog ''Authenticating user...'',
              GetUser (replace_first ''Bearer '' [] (the (req_authorization req))),
              ConsoleLog ''Fetching API keys for user:'', SelectApiKeys (user_uid usr),
              ConsoleLog ''Fetching exchange info from Binance...'', FetchExchangeInfo,
              ConsoleLog ''Fetching trades for USDT pairs...'']
             @ fst (pair_loop rt env (user_uid usr) (binance_api_key keys) before)
             @ [FetchTrades smb (binance_api_key keys), ConsoleError msg]
             @ fst (pair_loop rt env (user_uid usr) (binance_api_key keys) after)
             @ [ConsoleLog ''Completed processing whale trades''])
       \<and> upserts_of (fst (serve rt env req)) =
           upserts_of (fst (pair_loop rt env (user_uid usr) (binance_api_key keys) (before @ after)))
       \<and> fetches_of (fst (serve rt env req)) = before @ smb # after
       \<and> snd (serve rt env req) =
           \<lparr> resp_status = 200, resp_headers = json_headers,
             resp_body = SuccessBody
               (snd (pair_loop rt env (user_uid usr) (binance_api_key keys) (before @ after))) \<rparr>"
proof -
  let ?loop = "pair_loop rt env (user_uid usr) (binance_api_key keys)"
  let ?pp = "process_pair rt env (user_uid usr) (binance_api_key keys)"
  from process_pair_failed(3) [OF failed] obtain msg
    where msg: "msg \<in> {''Failed to fetch trades for '' @ smb @ '':'',
                        ''Error fetching trades for '' @ smb @ '':''}"
      and one: "fst (?pp smb) = [FetchTrades smb (binance_api_key keys), ConsoleError msg]"
    by blast
  have split_fst: "fst (?loop (before @ smb # after)) =
          fst (?loop before) @ [FetchTrades smb (binance_api_key keys), ConsoleError msg]
            @ fst (?loop after)"
    by (simp add: pair_loop_fst one)
  have split_snd: "snd (?loop (before @ smb # after)) = snd (?loop (before @ after))"
    by (simp add: pair_loop_snd process_pair_failed(1) [OF failed])
  have ups: "upserts_of (fst (?loop (before @ smb # after))) = upserts_of (fst (?loop (before @ after)))"
    by (simp add: pair_loop_fst upserts_of_append upserts_of_concat process_pair_failed(2) [OF failed])
  have trace: "fst (serve rt env req) =
             [ConsoleLog ''Initializing Supabase client...'', ConsoleLog ''Authenticating user...'',
              GetUser (replace_first ''Bearer '' [] (the (req_authorization req))),
              ConsoleLog ''Fetching API keys for user:'', SelectApiKeys (user_uid usr),
              ConsoleLog ''Fetching exchange info from Binance...'', FetchExchangeInfo,
              ConsoleLog ''Fetching trades for USDT pairs...'']
             @ fst (?loop before)
             @ [FetchTrades smb (binance_api_key keys), ConsoleError msg]
             @ fst (?loop after)
             @ [ConsoleLog ''Completed processing whale trades'']"
    by (simp add: serve_authenticated [OF auth info] pairs split_fst)
  have "upserts_of (fst (serve rt env req)) = upserts_of (fst (?loop (before @ after)))"
    using ups by (simp add: serve_authenticated [OF auth info] pairs upserts_of_append)
  moreover have "fetches_of (fst (serve rt env req)) = before @ smb # after"
    by (simp add: serve_authenticated [OF auth info] pairs fetches_of_append pair_loop_fetches)
  moreover have "snd (serve rt env req) =
           \<lparr> resp_status = 200, resp_headers = json_headers,
             resp_body = SuccessBody (snd (?loop (before @ after))) \<rparr>"
    by (simp add: serve_authenticated [OF auth info] pairs split_snd)
  ultimately show ?thesis
    using msg trace by blast
qed

lemma demo_renderable_first:
  "times_renderable int_runtime demo_env ''k'' [''BTCUSDT'']"
  by (simp add: times_renderable_def is_whale_def WHALE_THRESHOLD_def demo_defs)

theorem failed_pair_is_logged_and_skipped_witness:
  "fetch_failed (fetch_trades demo_env ''ETHUSDT'' ''k'')
   \<and> take 10 (usdtPairs demo_symbols) = [''BTCUSDT''] @ ''ETHUSDT'' # []
   \<and> fetches_of (fst (serve int_runtime demo_env demo_request)) = [''BTCUSDT'', ''ETHUSDT'']
   \<and> snd (serve int_runtime demo_env demo_request) =
        \<lparr> resp_status = 200, resp_headers = json_headers,
          resp_body = SuccessBody
            [\<lparr> price = ''50000'', qty = ''3'', isBuyerMaker = True, time = 1700000000000 \<rparr>,
             \<lparr> price = ''100000'', qty = ''1'', isBuyerMaker = False, time = 1700000000002 \<rparr>] \<rparr>"
proof -
  have info: "fetch_exchangeInfo demo_env = Inr demo_symbols"
    by (simp add: demo_env_def)
  have pairs: "take 10 (usdtPairs demo_symbols) = [''BTCUSDT''] @ ''ETHUSDT'' # []"
    by (simp add: demo_pairs)
  have failed: "fetch_failed (fetch_trades demo_env ''ETHUSDT''
                  (binance_api_key \<lparr> binance_api_key = ''k'', binance_api_secret = ''s'' \<rparr>))"
    by (simp add: fetch_failed_def demo_env_def)
  from failed_pair_is_logged_and_skipped [OF demo_authenticated info pairs failed, of int_runtime]
  have "fetches_of (fst (serve int_runtime demo_env demo_request)) = [''BTCUSDT''] @ ''ETHUSDT'' # []"
    and "snd (serve int_runtime demo_env demo_request) =
           \<lparr> resp_status = 200, resp_headers = json_headers,
             resp_body = SuccessBody (snd (pair_loop int_runtime demo_env ''u1'' ''k'' ([''BTCUSDT''] @ []))) \<rparr>"
    by simp_all
  then show ?thesis
    using failed pairs pair_loop_renderable(2) [OF demo_renderable_first, of "''u1''"]
    by (simp add: demo_qualifying)
qed

text \<open>
  Claim C4, as stated, fails on a preflight request: it carries no Authorization header and
  is answered with status 200 and an empty body.
\<close>

theorem preflight_without_header_is_not_500:
  "req_authorization preflight_request = None
   \<and> serve int_runtime demo_env preflight_request =
       ([], \<lparr> resp_status = 200, resp_headers = corsHeaders, resp_body = NoBody \<rparr>)
   \<and> resp_status (snd (serve int_runtime demo_env preflight_request)) \<noteq> 500"
  by (simp add: serve_def preflight_request_def)

text \<open>
  Claim C4, amended. A request whose method is OPTIONS is answered with status 200 and an
  empty body before anything else: no authentication, no fetch, no upsert. For a request
  whose method is not OPTIONS: when the Authorization header is missing or empty, when the
  authentication of the token returns an error or no user, or when the lookup of the API
  keys of the user returns an error or no row, the run is the one written out below: it
  holds no fetch from the exchange and no upsert, and the response has status 500 and
  carries the message of the error. Every failure is answered in this one shape: whatever
  value the \<^verbatim>\<open>try\<close> block throws, a failure to read the exchange info among them, the
  response has status 500, the JSON headers and the message of that value as its body; and
  a response is either this or the success response.
\<close>

theorem failures_answered_500_without_exchange_io:
  "(req_method req = ''OPTIONS'' \<longrightarrow>
      serve rt env req =
        ([], \<lparr> resp_status = 200, resp_headers = corsHeaders, resp_body = NoBody \<rparr>))
   \<and> (req_method req \<noteq> ''OPTIONS'' \<longrightarrow>
      (req_authorization req = None \<or> req_authorization req = Some [] \<longrightarrow>
        serve rt env req =
          ([ConsoleLog ''Initializing Supabase client...'',
            ConsoleError ''No authorization header provided'',
            ConsoleError ''Error in fetch-binance-whales:''],
           \<lparr> resp_status = 500, resp_headers = json_headers,
             resp_body = ErrorBody ''No authorization header'' \<rparr>))
      \<and> (\<forall>h usr userError.
            req_authorization req = Some h \<and> h \<noteq> [] \<and>
            auth_getUser env (replace_first ''Bearer '' [] h) = (usr, userError) \<and>
            (userError \<noteq> None \<or> usr = None) \<longrightarrow>
            serve rt env req =
              ([ConsoleLog ''Initializing Supabase client...'', ConsoleLog ''Authenticating user...'',
                GetUser (replace_first ''Bearer '' [] h),
                ConsoleError ''Authentication failed:'',
                ConsoleError ''Error in fetch-binance-whales:''],
               \<lparr> resp_status = 500, resp_headers = json_headers,
                 resp_body = ErrorBody ''Unauthorized'' \<rparr>))
      \<and> (\<forall>h usr apiKeys apiKeysError.
            req_authorization req = Some h \<and> h \<noteq> [] \<and>
            auth_getUser env (replace_first ''Bearer '' [] h) = (Some usr, None) \<and>
            select_api_keys env (user_uid usr) = (apiKeys, apiKeysError) \<and>
            (apiKeysError \<noteq> None \<or> apiKeys = None) \<longrightarrow>
            serve rt env req =
              ([ConsoleLog ''Initializing Supabase client...'', ConsoleLog ''Authenticating user...'',
                GetUser (replace_first ''Bearer '' [] h),
                ConsoleLog ''Fetching API keys for user:'', SelectApiKeys (user_uid usr),
                ConsoleError ''API keys not found:'',
                ConsoleError ''Error in fetch-binance-whales:''],
               \<lparr> resp_status = 500, resp_headers = json_headers,
                 resp_body = ErrorBody ''API keys not found'' \<rparr>))
      \<and> (\<forall>usr keys e.
            authenticated env req = Some (usr, keys) \<and> fetch_exchangeInfo env = Inl e \<longrightarrow>
            fetches_of (fst (serve rt env req)) = [] \<and> upserts_of (fst (serve rt env req)) = [] \<and>
            snd (serve rt env req) =
              \<lparr> resp_status = 500, resp_headers = json_headers,
                resp_body = ErrorBody (error_message e) \<rparr>)
      \<and> (\<forall>e. snd (serve_try rt env req) = Inl e \<longrightarrow>
            serve rt env req =
              (fst (serve_try rt env req) @ [ConsoleError ''Error in fetch-binance-whales:''],
               \<lparr> resp_status = 500, resp_headers = json_headers,
                 resp_body = ErrorBody (error_message e) \<rparr>))
      \<and> ((\<exists>e. snd (serve_try rt env req) = Inl e \<and>
               snd (serve rt env req) =
                 \<lparr> resp_status = 500, resp_headers = json_headers,
                   resp_body = ErrorBody (error_message e) \<rparr>)
         \<or> (\<exists>whales. snd (serve rt env req) =
                 \<lparr> resp_status = 200, resp_headers = json_headers,
                   resp_body = SuccessBody whales \<rparr>)))"
proof -
  have opt: "serve rt env req =
        ([], \<lparr> resp_status = 200, resp_headers = corsHeaders, resp_body = NoBody \<rparr>)"
    if "req_method req = ''OPTIONS''"
    using that by (simp add: serve_def)
  have a: "serve rt env req =
          ([ConsoleLog ''Initializing Supabase client...'',
            ConsoleError ''No authorization header provided'',
            ConsoleError ''Error in fetch-binance-whales:''],
           \<lparr> resp_status = 500, resp_headers = json_headers,
             resp_body = ErrorBody ''No authorization header'' \<rparr>)"
    if "req_method req \<noteq> ''OPTIONS''"
       "req_authorization req = None \<or> req_authorization req = Some []"
    using that by (auto simp: serve_def serve_try_def error_message_def)
  have b: "serve rt env req =
           ([ConsoleLog ''Initializing Supabase client...'', ConsoleLog ''Authenticating user...'',
             GetUser (replace_first ''Bearer '' [] h),
             ConsoleError ''Authentication failed:'',
             ConsoleError ''Error in fetch-binance-whales:''],
            \<lparr> resp_status = 500, resp_headers = json_headers,
              resp_body = ErrorBody ''Unauthorized'' \<rparr>)"
    if "req_method req \<noteq> ''OPTIONS''" "req_authorization req = Some h" "h \<noteq> []"
       "auth_getUser env (replace_first ''Bearer '' [] h) = (usr, userError)"
       "userError \<noteq> None \<or> usr = None" for h usr userError
    using that by (auto simp: serve_def serve_try_def error_message_def)
  have c: "serve rt env req =
           ([ConsoleLog ''Initializing Supabase client...'', ConsoleLog ''Authenticating user...'',
             GetUser (replace_first ''Bearer '' [] h),
             ConsoleLog ''Fetching API keys for user:'', SelectApiKeys (user_uid usr),
             ConsoleError ''API keys not found:'',
             ConsoleError ''Error in fetch-binance-whales:''],
            \<lparr> resp_status = 500, resp_headers = json_headers,
              resp_body = ErrorBody ''API keys not found'' \<rparr>)"
    if "req_method req \<noteq> ''OPTIONS''" "req_authorization req = Some h" "h \<noteq> []"
       "auth_getUser env (replace_first ''Bearer '' [] h) = (Some usr, None)"
       "select_api_keys env (user_uid usr) = (apiKeys, apiKeysError)"
       "apiKeysError \<noteq> None \<or> apiKeys = None" for h usr apiKeys apiKeysError
    using that by (auto simp: serve_def serve_try_def serve_keys_def error_message_def)
  have d: "fetches_of (fst (serve rt env req)) = [] \<and> upserts_of (fst (serve rt env req)) = [] \<and>
         snd (serve rt env req) =
           \<lparr> resp_status = 500, resp_headers = json_headers,
             resp_body = ErrorBody (error_message e) \<rparr>"
    if "authenticated env req = Some (usr, keys)" "fetch_exchangeInfo env = Inl e" for usr keys e
    by (simp add: serve_info_fails [OF that])
  have thrown: "serve rt env req =
              (fst (serve_try rt env req) @ [ConsoleError ''Error in fetch-binance-whales:''],
               \<lparr> resp_status = 500, resp_headers = json_headers,
                 resp_body = ErrorBody (error_message e) \<rparr>)"
    if "req_method req \<noteq> ''OPTIONS''" "snd (serve_try rt env req) = Inl e" for e
    using that by (cases "serve_try rt env req") (simp add: serve_def)
  have either: "(\<exists>e. snd (serve_try rt env req) = Inl e \<and>
               snd (serve rt env req) =
                 \<lparr> resp_status = 500, resp_headers = json_headers,
                   resp_body = ErrorBody (error_message e) \<rparr>)
         \<or> (\<exists>whales. snd (serve rt env req) =
                 \<lparr> resp_status = 200, resp_headers = json_headers,
                   resp_body = SuccessBody whales \<rparr>)"
    if nopt: "req_method req \<noteq> ''OPTIONS''"
  proof (cases "snd (serve_try rt env req)")
    case (Inl e)
    with thrown [OF nopt Inl] show ?thesis by simp
  next
    case (Inr resp)
    then have "\<exists>whales. resp = \<lparr> resp_status = 200, resp_headers = json_headers,
                                  resp_body = SuccessBody whales \<rparr>"
      by (auto simp: serve_try_def serve_keys_def serve_whales_def Let_def split_beta
          split: if_splits sum.splits)
    moreover from Inr nopt have "snd (serve rt env req) = resp"
      by (cases "serve_try rt env req") (simp add: serve_def)
    ultimately show ?thesis by blast
  qed
  from opt a b c d thrown either show ?thesis by blast
qed

theorem failures_answered_500_without_exchange_io_witness:
  "serve int_runtime demo_env preflight_request =
     ([], \<lparr> resp_status = 200, resp_headers = corsHeaders, resp_body = NoBody \<rparr>)
   \<and> serve int_runtime demo_env no_header_request =
     ([ConsoleLog ''Initializing Supabase client...'',
       ConsoleError ''No authorization header provided'',
       ConsoleError ''Error in fetch-binance-whales:''],
      \<lparr> resp_status = 500, resp_headers = json_headers,
        resp_body = ErrorBody ''No authorization header'' \<rparr>)
   \<and> serve int_runtime demo_env bad_token_request =
     ([ConsoleLog ''Initializing Supabase client...'', ConsoleLog ''Authenticating user...'',
       GetUser ''expired'',
       ConsoleError ''Authentication failed:'',
       ConsoleError ''Error in fetch-binance-whales:''],
      \<lparr> resp_status = 500, resp_headers = json_headers,
        resp_body = ErrorBody ''Unauthorized'' \<rparr>)
   \<and> serve int_runtime demo_env no_keys_request =
     ([ConsoleLog ''Initializing Supabase client...'', ConsoleLog ''Authenticating user...'',
       GetUser ''tok2'',
       ConsoleLog ''Fetching API keys for user:'', SelectApiKeys ''u2'',
       ConsoleError ''API keys not found:'',
       ConsoleError ''Error in fetch-binance-whales:''],
      \<lparr> resp_status = 500, resp_headers = json_headers,
        resp_body = ErrorBody ''API keys not found'' \<rparr>)"
proof -
  have m0: "req_method preflight_request = ''OPTIONS''"
    and m1: "req_method no_header_request \<noteq> ''OPTIONS''"
    and m2: "req_method bad_token_request \<noteq> ''OPTIONS''"
    and m3: "req_method no_keys_request \<noteq> ''OPTIONS''"
    by (simp_all add: preflight_request_def no_header_request_def bad_token_request_def
        no_keys_request_def)
  have h1: "req_authorization no_header_request = None"
    by (simp add: no_header_request_def)
  have h2: "req_authorization bad_token_request = Some ''Bearer expired''"
    "auth_getUser demo_env (replace_first ''Bearer '' [] ''Bearer expired'') = (None, Some ''invalid JWT'')"
    "replace_first ''Bearer '' [] ''Bearer expired'' = ''expired''"
    by (simp_all add: bad_token_request_def demo_env_def)
  have h3: "req_authorization no_keys_request = Some ''Bearer tok2''"
    "auth_getUser demo_env (replace_first ''Bearer '' [] ''Bearer tok2'') = (Some \<lparr> user_uid = ''u2'' \<rparr>, None)"
    "select_api_keys demo_env (user_uid \<lparr> user_uid = ''u2'' \<rparr>) = (None, Some ''no rows'')"
    "replace_first ''Bearer '' [] ''Bearer tok2'' = ''tok2''"
    by (simp_all add: no_keys_request_def demo_env_def)
  from failures_answered_500_without_exchange_io
         [where req = preflight_request and rt = int_runtime and env = demo_env] m0
  have r0: "serve int_runtime demo_env preflight_request =
     ([], \<lparr> resp_status = 200, resp_headers = corsHeaders, resp_body = NoBody \<rparr>)"
    by blast
  from failures_answered_500_without_exchange_io
         [where req = no_header_request and rt = int_runtime and env = demo_env] m1 h1
  have r1: "serve int_runtime demo_env no_header_request =
     ([ConsoleLog ''Initializing Supabase client...'',
       ConsoleError ''No authorization header provided'',
       ConsoleError ''Error in fetch-binance-whales:''],
      \<lparr> resp_status = 500, resp_headers = json_headers,
        resp_body = ErrorBody ''No authorization header'' \<rparr>)"
    by blast
  from failures_answered_500_without_exchange_io
         [where req = bad_token_request and rt = int_runtime and env = demo_env] m2
  have "\<forall>h usr userError.
            req_authorization bad_token_request = Some h \<and> h \<noteq> [] \<and>
            auth_getUser demo_env (replace_first ''Bearer '' [] h) = (usr, userError) \<and>
            (userError \<noteq> None \<or> usr = None) \<longrightarrow>
            serve int_runtime demo_env bad_token_request =
              ([ConsoleLog ''Initializing Supabase client...'', ConsoleLog ''Authenticating user...'',
                GetUser (replace_first ''Bearer '' [] h),
                ConsoleError ''Authentication failed:'',
                ConsoleError ''Error in fetch-binance-whales:''],
               \<lparr> resp_status = 500, resp_headers = json_headers,
                 resp_body = ErrorBody ''Unauthorized'' \<rparr>)"
    by blast
  with h2 have r2: "serve int_runtime demo_env bad_token_request =
     ([ConsoleLog ''Initializing Supabase client...'', ConsoleLog ''Authenticating user...'',
       GetUser ''expired'',
       ConsoleError ''Authentication failed:'',
       ConsoleError ''Error in fetch-binance-whales:''],
      \<lparr> resp_status = 500, resp_headers = json_headers,
        resp_body = ErrorBody ''Unauthorized'' \<rparr>)"
    by (metis list.distinct(1))
  from failures_answered_500_without_exchange_io
         [where req = no_keys_request and rt = int_runtime and env = demo_env] m3
  have "\<forall>h usr apiKeys apiKeysError.
            req_authorization no_keys_request = Some h \<and> h \<noteq> [] \<and>
            auth_getUser demo_env (replace_first ''Bearer '' [] h) = (Some usr, None) \<and>
            select_api_keys demo_env (user_uid usr) = (apiKeys, apiKeysError) \<and>
            (apiKeysError \<noteq> None \<or> apiKeys = None) \<longrightarrow>
            serve int_runtime demo_env no_keys_request =
              ([ConsoleLog ''Initializing Supabase client...'', ConsoleLog ''Authenticating user...'',
                GetUser (replace_first ''Bearer '' [] h),
                ConsoleLog ''Fetching API keys for user:'', SelectApiKeys (user_uid usr),
                ConsoleError ''API keys not found:'',
                ConsoleError ''Error in fetch-binance-whales:''],
               \<lparr> resp_status = 500, resp_headers = json_headers,
                 resp_body = ErrorBody ''API keys not found'' \<rparr>)"
    by blast
  with h3 have r3: "serve int_runtime demo_env no_keys_request =
     ([ConsoleLog ''Initializing Supabase client...'', ConsoleLog ''Authenticating user...'',
       GetUser ''tok2'',
       ConsoleLog ''Fetching API keys for user:'', SelectApiKeys ''u2'',
       ConsoleError ''API keys not found:'',
       ConsoleError ''Error in fetch-binance-whales:''],
      \<lparr> resp_status = 500, resp_headers = json_headers,
        resp_body = ErrorBody ''API keys not found'' \<rparr>)"
    by (metis list.distinct(1) user.select_convs(1))
  from r0 r1 r2 r3 show ?thesis by blast
qed

text \<open>
  Claim C7. The rows an invocation upserts do not depend on what the storage answers, and
  the handler reads nothing back from the storage. With one upsert for each trade that
  reaches the threshold, once for each time the exchange lists it, a second invocation on
  the same exchange data upserts the same rows again: each row twice as often.
\<close>

theorem no_deduplication_of_upserts:
  "upserts_of (fst (serve rt (env\<lparr>upsert_whale_trade := u\<rparr>) req)) = upserts_of (fst (serve rt env req))
   \<and> (authenticated env req = Some (usr, keys) \<and> fetch_exchangeInfo env = Inr symbols \<and>
      times_renderable rt env (binance_api_key keys) (take 10 (usdtPairs symbols)) \<longrightarrow>
        (let U = concat (map (\<lambda>s. map (whale_row_of rt (user_uid usr) s)
                                      (qualifying rt env (binance_api_key keys) s))
                             (take 10 (usdtPairs symbols)))
         in upserts_of (fst (serve rt env req) @ fst (serve rt (env\<lparr>upsert_whale_trade := u\<rparr>) req))
              = U @ U
          \<and> length U = sum_list (map (\<lambda>s. length (qualifying rt env (binance_api_key keys) s))
                                     (take 10 (usdtPairs symbols)))
          \<and> (\<forall>r. count_list (U @ U) r = 2 * count_list U r)))"
proof -
  have same: "upserts_of (fst (serve rt (env\<lparr>upsert_whale_trade := u\<rparr>) req))
                = upserts_of (fst (serve rt env req))"
  proof (cases "authenticated env req")
    case None
    then have "authenticated (env\<lparr>upsert_whale_trade := u\<rparr>) req = None"
      by (simp add: authenticated_any_storage)
    with None show ?thesis
      by (simp add: serve_not_authenticated)
  next
    case (Some auth)
    obtain usr keys where auth: "authenticated env req = Some (usr, keys)"
      using Some by (cases auth) simp
    then have auth': "authenticated (env\<lparr>upsert_whale_trade := u\<rparr>) req = Some (usr, keys)"
      by (simp add: authenticated_any_storage)
    show ?thesis
    proof (cases "fetch_exchangeInfo env")
      case (Inl e)
      then have "fetch_exchangeInfo (env\<lparr>upsert_whale_trade := u\<rparr>) = Inl e" by simp
      from serve_info_fails [OF auth' this] serve_info_fails [OF auth Inl] show ?thesis
        by simp
    next
      case (Inr symbols)
      then have "fetch_exchangeInfo (env\<lparr>upsert_whale_trade := u\<rparr>) = Inr symbols" by simp
      from serve_authenticated [OF auth' this] serve_authenticated [OF auth Inr] show ?thesis
        by (simp add: upserts_of_append pair_loop_upserts_any_storage)
    qed
  qed
  have twice: "upserts_of (fst (serve rt env req) @ fst (serve rt (env\<lparr>upsert_whale_trade := u\<rparr>) req))
                 = U @ U"
    if "authenticated env req = Some (usr, keys)" "fetch_exchangeInfo env = Inr symbols"
       "times_renderable rt env (binance_api_key keys) (take 10 (usdtPairs symbols))"
       "U = concat (map (\<lambda>s. map (whale_row_of rt (user_uid usr) s)
                                      (qualifying rt env (binance_api_key keys) s))
                             (take 10 (usdtPairs symbols)))" for U
    using that same
    by (simp add: upserts_of_append serve_authenticated pair_loop_renderable(1))
  have len: "length (concat (map (\<lambda>s. map (f s) (q s)) ps)) = sum_list (map (\<lambda>s. length (q s)) ps)"
    for f :: "'d \<Rightarrow> 'b \<Rightarrow> 'c" and q :: "'d \<Rightarrow> 'b list" and ps
    by (induction ps) simp_all
  let ?U = "concat (map (\<lambda>s. map (whale_row_of rt (user_uid usr) s)
                                      (qualifying rt env (binance_api_key keys) s))
                             (take 10 (usdtPairs symbols)))"
  have second: "upserts_of (fst (serve rt env req) @ fst (serve rt (env\<lparr>upsert_whale_trade := u\<rparr>) req))
              = ?U @ ?U
          \<and> length ?U = sum_list (map (\<lambda>s. length (qualifying rt env (binance_api_key keys) s))
                                     (take 10 (usdtPairs symbols)))
          \<and> (\<forall>r. count_list (?U @ ?U) r = 2 * count_list ?U r)"
    if "authenticated env req = Some (usr, keys) \<and> fetch_exchangeInfo env = Inr symbols \<and>
      times_renderable rt env (binance_api_key keys) (take 10 (usdtPairs symbols))"
  proof -
    have "length ?U = sum_list (map (\<lambda>s. length (qualifying rt env (binance_api_key keys) s))
                                     (take 10 (usdtPairs symbols)))"
      by (rule len)
    moreover have "\<forall>r. count_list (?U @ ?U) r = 2 * count_list ?U r"
      by simp
    moreover have "upserts_of (fst (serve rt env req)
                     @ fst (serve rt (env\<lparr>upsert_whale_trade := u\<rparr>) req)) = ?U @ ?U"
      using twice [of ?U] that by blast
    ultimately show ?thesis by blast
  qed
  from same second show ?thesis
    unfolding Let_def by blast
qed

theorem no_deduplication_of_upserts_witness:
  "upserts_of (fst (serve int_runtime demo_env demo_request)
             @ fst (serve int_runtime (demo_env\<lparr>upsert_whale_trade := (\<lambda>row. Some ''duplicate key'')\<rparr>)
                      demo_request)) =
       [\<lparr> w_user_id = ''u1'', w_symbol = ''BTCUSDT'', w_amount = Some 150000, w_price = Some 50000,
          w_trade_type = ''buy'', w_timestamp = ''1700000000000'' \<rparr>,
        \<lparr> w_user_id = ''u1'', w_symbol = ''BTCUSDT'', w_amount = Some 100000, w_price = Some 100000,
          w_trade_type = ''sell'', w_timestamp = ''1700000000002'' \<rparr>,
        \<lparr> w_user_id = ''u1'', w_symbol = ''BTCUSDT'', w_amount = Some 150000, w_price = Some 50000,
          w_trade_type = ''buy'', w_timestamp = ''1700000000000'' \<rparr>,
        \<lparr> w_user_id = ''u1'', w_symbol = ''BTCUSDT'', w_amount = Some 100000, w_price = Some 100000,
          w_trade_type = ''sell'', w_timestamp = ''1700000000002'' \<rparr>]"
proof -
  have info: "fetch_exchangeInfo demo_env = Inr demo_symbols"
    by (simp add: demo_env_def)
  have times: "times_renderable int_runtime demo_env
                 (binance_api_key \<lparr> binance_api_key = ''k'', binance_api_secret = ''s'' \<rparr>)
                 (take 10 (usdtPairs demo_symbols))"
    using demo_renderable by simp
  from no_deduplication_of_upserts [where rt = int_runtime and env = demo_env
      and u = "\<lambda>row. Some ''duplicate key''" and req = demo_request
      and usr = "\<lparr> user_uid = ''u1'' \<rparr>"
      and keys = "\<lparr> binance_api_key = ''k'', binance_api_secret = ''s'' \<rparr>"
      and symbols = demo_symbols]
    demo_authenticated info times
  show ?thesis
    by (simp add: Let_def demo_pairs demo_qualifying demo_rows)
qed

section \<open>Properties of the sentiment counts\<close>

subsection \<open>The counts of a coin\<close>

lemma count_comments_counts:
  "count_comments cs (b, s, o') =
     (b + length (filter (\<lambda>c. indicator c = ''buy'') cs),
      s + length (filter (\<lambda>c. indicator c = ''sell'') cs),
      o' + length (filter (\<lambda>c. indicator c \<noteq> ''buy'' \<and> indicator c \<noteq> ''sell'') cs))"
  by (induction cs arbitrary: b s o') (simp_all add: count_comment_def)

lemma count_videos_counts:
  "count_videos vs (b, s, o') =
     (b + length (filter (\<lambda>c. indicator c = ''buy'') (concat (map (\<lambda>v. comments (snd v)) vs))),
      s + length (filter (\<lambda>c. indicator c = ''sell'') (concat (map (\<lambda>v. comments (snd v)) vs))),
      o' + length (filter (\<lambda>c. indicator c \<noteq> ''buy'' \<and> indicator c \<noteq> ''sell'')
                    (concat (map (\<lambda>v. comments (snd v)) vs))))"
  by (induction vs arbitrary: b s o') (simp_all add: count_comments_counts)

lemma three_way_split:
  "length (filter (\<lambda>c. indicator c = ''buy'') cs) + length (filter (\<lambda>c. indicator c = ''sell'') cs)
     + length (filter (\<lambda>c. indicator c \<noteq> ''buy'' \<and> indicator c \<noteq> ''sell'') cs) = length cs"
  by (induction cs) auto

text \<open>
  Claim C5. For a data set with its videos, \<^verbatim>\<open>calculateSentiments\<close> returns as buy, sell and
  others the numbers of comments, over all videos, whose indicator is \<^verbatim>\<open>'buy'\<close>, is
  \<^verbatim>\<open>'sell'\<close>, and is neither; total is their sum, the number of all comments. For no data
  set and for a data set without videos the four counts are zero.
\<close>

theorem calculateSentiments_counts:
  "calculateSentiments (Some \<lparr> videos = Some vs \<rparr>) =
     \<lparr> s_buy = length (filter (\<lambda>c. indicator c = ''buy'') (all_comments \<lparr> videos = Some vs \<rparr>)),
       s_sell = length (filter (\<lambda>c. indicator c = ''sell'') (all_comments \<lparr> videos = Some vs \<rparr>)),
       s_others = length (filter (\<lambda>c. indicator c \<noteq> ''buy'' \<and> indicator c \<noteq> ''sell'')
                            (all_comments \<lparr> videos = Some vs \<rparr>)),
       s_total = length (all_comments \<lparr> videos = Some vs \<rparr>) \<rparr>
   \<and> s_total (calculateSentiments sd) =
       s_buy (calculateSentiments sd) + s_sell (calculateSentiments sd)
         + s_others (calculateSentiments sd)
   \<and> calculateSentiments None = \<lparr> s_buy = 0, s_sell = 0, s_others = 0, s_total = 0 \<rparr>
   \<and> calculateSentiments (Some \<lparr> videos = None \<rparr>) =
       \<lparr> s_buy = 0, s_sell = 0, s_others = 0, s_total = 0 \<rparr>"
proof -
  have "calculateSentiments (Some \<lparr> videos = Some vs \<rparr>) =
     \<lparr> s_buy = length (filter (\<lambda>c. indicator c = ''buy'') (all_comments \<lparr> videos = Some vs \<rparr>)),
       s_sell = length (filter (\<lambda>c. indicator c = ''sell'') (all_comments \<lparr> videos = Some vs \<rparr>)),
       s_others = length (filter (\<lambda>c. indicator c \<noteq> ''buy'' \<and> indicator c \<noteq> ''sell'')
                            (all_comments \<lparr> videos = Some vs \<rparr>)),
       s_total = length (all_comments \<lparr> videos = Some vs \<rparr>) \<rparr>"
    using three_way_split [of "concat (map (\<lambda>v. comments (snd v)) vs)"]
    by (simp add: calculateSentiments_def all_comments_def count_videos_counts)
  moreover have "s_total (calculateSentiments sd) =
       s_buy (calculateSentiments sd) + s_sell (calculateSentiments sd)
         + s_others (calculateSentiments sd)"
    by (simp add: calculateSentiments_def split: option.splits prod.splits)
  moreover have "calculateSentiments None = \<lparr> s_buy = 0, s_sell = 0, s_others = 0, s_total = 0 \<rparr>"
    by (simp add: calculateSentiments_def)
  moreover have "calculateSentiments (Some \<lparr> videos = None \<rparr>) =
       \<lparr> s_buy = 0, s_sell = 0, s_others = 0, s_total = 0 \<rparr>"
    by (simp add: calculateSentiments_def)
  ultimately show ?thesis by blast
qed

theorem calculateSentiments_counts_witness:
  "calculateSentiments (Some demo_sentiment) = \<lparr> s_buy = 3, s_sell = 1, s_others = 1, s_total = 5 \<rparr>"
  using calculateSentiments_counts
    [of "[(''v1'', \<lparr> comments = [\<lparr> indicator = ''buy'' \<rparr>, \<lparr> indicator = ''sell'' \<rparr>,
                                 \<lparr> indicator = ''buy'' \<rparr>] \<rparr>),
          (''v2'', \<lparr> comments = [\<lparr> indicator = ''hold'' \<rparr>, \<lparr> indicator = ''buy'' \<rparr>] \<rparr>)]"]
  by (simp add: demo_sentiment_def all_comments_def)

subsection \<open>The ten coins of a card\<close>

lemma tally_comments_counts:
  "tally_comments ty cs (n, t) = (n + length (filter (\<lambda>c. indicator c = ty) cs), t + length cs)"
  by (induction cs arbitrary: n t) simp_all

lemma tally_videos_counts:
  "tally_videos ty vs (n, t) =
     (n + length (filter (\<lambda>c. indicator c = ty) (concat (map (\<lambda>v. comments (snd v)) vs))),
      t + length (concat (map (\<lambda>v. comments (snd v)) vs)))"
  by (induction vs arbitrary: n t) (simp_all add: tally_comments_counts)

lemma set_assign: "set (assign k v es) \<subseteq> insert (k, v) (set es)"
  by (induction es) auto

lemma collect_counted:
  assumes "\<forall>e \<in> set acc. counted ty (done @ d) e"
  shows "\<forall>e \<in> set (collect ty d acc). counted ty (done @ d) e"
  using assms
proof (induction d arbitrary: acc "done")
  case Nil
  then show ?case by simp
next
  case (Cons entry d)
  have step: "\<forall>e \<in> set (collect ty d acc'). counted ty ((done @ [entry]) @ d) e"
    if "\<forall>e \<in> set acc'. counted ty ((done @ [entry]) @ d) e" for acc'
    using Cons.IH [of acc' "done @ [entry]"] that by blast
  show ?case
  proof (cases "videos (snd entry)")
    case None
    with step [of acc] Cons.prems show ?thesis by simp
  next
    case (Some vs)
    let ?n = "length (filter (\<lambda>c. indicator c = ty) (concat (map (\<lambda>v. comments (snd v)) vs)))"
    let ?t = "length (concat (map (\<lambda>v. comments (snd v)) vs))"
    show ?thesis
    proof (cases "0 < ?t")
      case False
      with Some step [of acc] Cons.prems show ?thesis
        by (simp add: tally_videos_counts)
    next
      case True
      let ?new = "(fst entry, \<lparr> cs_count = ?n, cs_total = ?t \<rparr>)"
      have "counted ty ((done @ [entry]) @ d) ?new"
        unfolding counted_def
        using Some True
        by (intro exI [of _ "snd entry"]) (simp add: all_comments_def matching_def)
      with Cons.prems set_assign [of "fst entry" "snd ?new" acc]
      have "\<forall>e \<in> set (assign (fst entry) \<lparr> cs_count = ?n, cs_total = ?t \<rparr> acc).
              counted ty ((done @ [entry]) @ d) e"
        by auto
      from step [OF this] Some True show ?thesis
        by (simp add: tally_videos_counts)
    qed
  qed
qed

lemma set_insert_by: "set (insert_by cmp x ys) = insert x (set ys)"
  by (induction ys) auto

lemma set_sort_by: "set (sort_by cmp xs) = set xs"
  by (induction xs) (simp_all add: sort_by_def set_insert_by)

lemma sorted_wrt_take_prefix: "sorted_wrt P xs \<Longrightarrow> sorted_wrt P (take n xs)"
  by (induction xs arbitrary: n) (auto simp: take_Cons' dest: in_set_takeD)

subsection \<open>Rounding to the nearest double\<close>

lemma round_even_bounds: "\<lfloor>q\<rfloor> \<le> round_even q \<and> round_even q \<le> \<lfloor>q\<rfloor> + 1"
  by (simp add: round_even_def Let_def)

lemma round_even_of_int: "round_even (of_int n) = n"
  by (simp add: round_even_def)

lemma round_even_mono:
  assumes "q \<le> q'"
  shows "round_even q \<le> round_even q'"
proof (cases "\<lfloor>q\<rfloor> = \<lfloor>q'\<rfloor>")
  case True
  with assms show ?thesis
    by (auto simp: round_even_def Let_def)
next
  case False
  with assms have "\<lfloor>q\<rfloor> < \<lfloor>q'\<rfloor>"
    using floor_mono [of q q'] by simp
  with round_even_bounds [of q] round_even_bounds [of q'] show ?thesis
    by linarith
qed

lemma of_int_less_powi:
  assumes "0 < a"
  shows "(of_int a :: rat) < 2 powi (bitlen a)" and "(2::rat) powi (bitlen a - 1) \<le> of_int a"
proof -
  from assms have pos: "0 < bitlen a"
    using bitlen_nonneg [of a] bitlen_eq_zero_iff [of a] by linarith
  from bitlen_bounds [OF assms] have "a < 2 ^ nat (bitlen a)" and "2 ^ nat (bitlen a - 1) \<le> a"
    by simp_all
  then have "(of_int a :: rat) < of_int (2 ^ nat (bitlen a))"
    and "(of_int (2 ^ nat (bitlen a - 1)) :: rat) \<le> of_int a"
    by (simp_all only: of_int_less_iff of_int_le_iff)
  with pos show "(of_int a :: rat) < 2 powi (bitlen a)" and "(2::rat) powi (bitlen a - 1) \<le> of_int a"
    by (simp_all add: power_int_nonneg_exp)
qed

lemma floor_log2_bounds:
  assumes "0 < x"
  shows "2 powi (floor_log2 x) \<le> x \<and> x < 2 powi (floor_log2 x + 1)"
proof -
  obtain a b where q: "quotient_of x = (a, b)" by (cases "quotient_of x")
  then have b: "0 < b" and x: "x = of_int a / of_int b"
    by (simp_all add: quotient_of_denom_pos quotient_of_div)
  with assms have a: "0 < a"
    by (simp add: zero_less_divide_iff)
  let ?k = "bitlen a - bitlen b"
  have "x < 2 powi (bitlen a) / 2 powi (bitlen b - 1)"
    unfolding x using of_int_less_powi [OF a] of_int_less_powi [OF b] a b
    by (intro frac_less) simp_all
  moreover have "(2::rat) powi (?k + 1) = 2 powi (bitlen a - (bitlen b - 1))"
    by (simp add: algebra_simps)
  moreover have "(2::rat) powi (bitlen a - (bitlen b - 1)) = 2 powi (bitlen a) / 2 powi (bitlen b - 1)"
    by (rule power_int_diff) simp
  ultimately have up: "x < 2 powi (?k + 1)"
    by simp
  have "2 powi (bitlen a - 1) / 2 powi (bitlen b) < x"
    unfolding x using of_int_less_powi [OF a] of_int_less_powi [OF b] a b
    by (intro frac_less2) simp_all
  moreover have "(2::rat) powi (?k - 1) = 2 powi (bitlen a - 1 - bitlen b)"
    by (simp add: algebra_simps)
  moreover have "(2::rat) powi (bitlen a - 1 - bitlen b) = 2 powi (bitlen a - 1) / 2 powi (bitlen b)"
    by (rule power_int_diff) simp
  ultimately have low: "2 powi (?k - 1) < x"
    by simp
  show ?thesis
    using up low by (auto simp: floor_log2_def q Let_def)
qed


lemma two_powi_split: "(2::rat) powi (m + n) = 2 powi m * 2 powi n"
  by (rule power_int_add) simp

lemma significand_bounds:
  assumes "0 < x"
  shows "2 ^ 52 \<le> x * 2 powi (- (floor_log2 x - 52))"
    and "x * 2 powi (- (floor_log2 x - 52)) < 2 ^ 53"
proof -
  let ?L = "floor_log2 x"
  have s: "(0::rat) < 2 powi (52 - ?L)" by simp
  have e: "- (?L - 52) = 52 - ?L" by simp
  from floor_log2_bounds [OF assms]
  have "2 powi ?L * 2 powi (52 - ?L) \<le> x * 2 powi (52 - ?L)"
    and "x * 2 powi (52 - ?L) < 2 powi (?L + 1) * 2 powi (52 - ?L)"
    using s by (simp_all only: mult_le_cancel_right_pos mult_less_cancel_right_pos)
  moreover have "(2::rat) powi ?L * 2 powi (52 - ?L) = 2 ^ 52"
    using two_powi_split [of ?L "52 - ?L"] by simp
  moreover have "(2::rat) powi (?L + 1) * 2 powi (52 - ?L) = 2 ^ 53"
    using two_powi_split [of "?L + 1" "52 - ?L"] by simp
  ultimately show "2 ^ 52 \<le> x * 2 powi (- (?L - 52))" and "x * 2 powi (- (?L - 52)) < 2 ^ 53"
    unfolding e by simp_all
qed

lemma nearest_double_pos_bounds:
  assumes "0 < x"
  shows "2 powi (floor_log2 x) \<le> nearest_double x"
    and "nearest_double x \<le> 2 powi (floor_log2 x + 1)"
proof -
  let ?L = "floor_log2 x"
  let ?m = "x * 2 powi (- (?L - 52))"
  have nd: "nearest_double x = of_int (round_even ?m) * 2 powi (?L - 52)"
    using assms by (simp add: nearest_double_def Let_def)
  have "(of_int (2 ^ 52) :: rat) \<le> ?m" and "?m \<le> of_int (2 ^ 53)"
    using significand_bounds [OF assms] by simp_all
  then have "round_even (of_int (2 ^ 52)) \<le> round_even ?m"
    and "round_even ?m \<le> round_even (of_int (2 ^ 53))"
    by (simp_all only: round_even_mono)
  then have "2 ^ 52 \<le> round_even ?m" and "round_even ?m \<le> 2 ^ 53"
    by (simp_all only: round_even_of_int)
  then have "(of_int (2 ^ 52) :: rat) \<le> of_int (round_even ?m)"
    and "(of_int (round_even ?m) :: rat) \<le> of_int (2 ^ 53)"
    by (simp_all only: of_int_le_iff)
  then have a: "(of_int (2 ^ 52) :: rat) * 2 powi (?L - 52) \<le> of_int (round_even ?m) * 2 powi (?L - 52)"
    and b: "(of_int (round_even ?m) :: rat) * 2 powi (?L - 52) \<le> of_int (2 ^ 53) * 2 powi (?L - 52)"
    by (simp_all only: mult_right_mono zero_le_power_int zero_le_numeral)
  have lo: "(of_int (2 ^ 52) :: rat) * 2 powi (?L - 52) = 2 powi ?L"
    using two_powi_split [of 52 "?L - 52"] by simp
  have hi: "(of_int (2 ^ 53) :: rat) * 2 powi (?L - 52) = 2 powi (?L + 1)"
    using two_powi_split [of 53 "?L - 52"] by (simp add: algebra_simps)
  show "2 powi ?L \<le> nearest_double x"
    using a unfolding lo nd .
  show "nearest_double x \<le> 2 powi (?L + 1)"
    using b unfolding hi nd .
qed

lemma nearest_double_pos: "0 < x \<Longrightarrow> 0 < nearest_double x"
  using nearest_double_pos_bounds(1) [of x] zero_less_power_int [of "2::rat" "floor_log2 x"]
  by linarith

lemma floor_log2_mono:
  assumes "0 < x" and "x \<le> y"
  shows "floor_log2 x \<le> floor_log2 y"
proof (rule ccontr)
  assume "\<not> floor_log2 x \<le> floor_log2 y"
  then have "floor_log2 y + 1 \<le> floor_log2 x" by simp
  then have "(2::rat) powi (floor_log2 y + 1) \<le> 2 powi (floor_log2 x)"
    by (intro power_int_increasing) simp_all
  with floor_log2_bounds [OF assms(1)] floor_log2_bounds [of y] assms show False
    by linarith
qed

lemma nearest_double_mono:
  assumes "0 \<le> x" and "x \<le> y"
  shows "nearest_double x \<le> nearest_double y"
proof (cases "x = 0")
  case True
  show ?thesis
  proof (cases "y = 0")
    case True
    with \<open>x = 0\<close> show ?thesis by simp
  next
    case False
    with assms have "0 < y" by simp
    from nearest_double_pos [OF this] \<open>x = 0\<close> show ?thesis
      by (simp add: nearest_double_def)
  qed
next
  case False
  with assms have x: "0 < x" and y: "0 < y" by simp_all
  show ?thesis
  proof (cases "floor_log2 x = floor_log2 y")
    case True
    let ?e = "floor_log2 y - 52"
    have "x * 2 powi (- ?e) \<le> y * 2 powi (- ?e)"
      using assms(2) by (intro mult_right_mono) simp_all
    then have "round_even (x * 2 powi (- ?e)) \<le> round_even (y * 2 powi (- ?e))"
      by (rule round_even_mono)
    then have "(of_int (round_even (x * 2 powi (- ?e))) :: rat) * 2 powi ?e
                 \<le> of_int (round_even (y * 2 powi (- ?e))) * 2 powi ?e"
      by (intro mult_right_mono) simp_all
    with x y True show ?thesis
      by (simp add: nearest_double_def Let_def)
  next
    case False
    with floor_log2_mono [OF x assms(2)] have "floor_log2 x + 1 \<le> floor_log2 y" by simp
    then have "(2::rat) powi (floor_log2 x + 1) \<le> 2 powi (floor_log2 y)"
      by (intro power_int_increasing) simp_all
    with nearest_double_pos_bounds(2) [OF x] nearest_double_pos_bounds(1) [OF y] show ?thesis
      by linarith
  qed
qed

lemma nearest_double_neg:
  assumes "x < 0"
  shows "nearest_double x < 0"
proof -
  let ?L = "floor_log2 (- x)"
  let ?m = "x * 2 powi (- (?L - 52))"
  from assms have pos: "0 < - x" by simp
  have nd: "nearest_double x = of_int (round_even ?m) * 2 powi (?L - 52)"
    using assms by (simp add: nearest_double_def Let_def abs_if)
  have "2 ^ 52 \<le> - ?m"
    using significand_bounds(1) [OF pos] by simp
  then have "?m \<le> of_int (- (2 ^ 52))" by simp
  then have "round_even ?m \<le> round_even (of_int (- (2 ^ 52)))"
    by (rule round_even_mono)
  then have "round_even ?m < 0"
    by (simp only: round_even_of_int) simp
  then have "(of_int (round_even ?m) :: rat) < 0" by simp
  then show ?thesis
    unfolding nd by (simp add: mult_less_0_iff)
qed

lemma nearest_double_nonpos_iff: "(nearest_double x \<le> 0) = (x \<le> 0)"
proof (cases "x = 0")
  case True
  then show ?thesis by (simp add: nearest_double_def)
next
  case False
  show ?thesis
  proof (cases "0 < x")
    case True
    from nearest_double_pos [OF this] True show ?thesis by simp
  next
    case False
    with \<open>x \<noteq> 0\<close> have "x < 0" by simp
    from nearest_double_neg [OF this] this show ?thesis by simp
  qed
qed

lemma nearest_double_one: "nearest_double 1 = 1"
  by code_simp

lemma nearest_double_hundred: "nearest_double 100 = 100"
  by code_simp

lemma round_even_error: "\<bar>of_int (round_even q) - q\<bar> \<le> 1 / 2"
proof -
  define r where "r = q - of_int \<lfloor>q\<rfloor>"
  have r: "0 \<le> r" "r < 1"
    unfolding r_def by linarith+
  consider "r < 1 / 2" | "1 / 2 < r" | "r = 1 / 2" by linarith
  then show ?thesis
  proof cases
    case 1
    then have "round_even q = \<lfloor>q\<rfloor>"
      by (simp add: round_even_def Let_def r_def)
    then have "of_int (round_even q) - q = - r"
      by (simp add: r_def)
    with 1 r show ?thesis by linarith
  next
    case 2
    then have "round_even q = \<lfloor>q\<rfloor> + 1"
      by (simp add: round_even_def Let_def r_def)
    then have "of_int (round_even q) - q = 1 - r"
      by (simp add: r_def)
    with 2 r show ?thesis by linarith
  next
    case 3
    then have "round_even q = \<lfloor>q\<rfloor> \<or> round_even q = \<lfloor>q\<rfloor> + 1"
      by (simp add: round_even_def Let_def r_def)
    then have "of_int (round_even q) - q = - r \<or> of_int (round_even q) - q = 1 - r"
      by (auto simp: r_def)
    with 3 show ?thesis by auto
  qed
qed

lemma nearest_double_error:
  assumes "0 < x"
  shows "\<bar>nearest_double x - x\<bar> \<le> x / 2 ^ 53"
proof -
  let ?e = "floor_log2 x - 52"
  let ?m = "x * 2 powi (- ?e)"
  have nd: "nearest_double x = of_int (round_even ?m) * 2 powi ?e"
    using assms by (simp add: nearest_double_def Let_def)
  have scaled: "?m * 2 powi ?e = x"
    using two_powi_split [of "- ?e" ?e] by simp
  have "nearest_double x - x = (of_int (round_even ?m) - ?m) * 2 powi ?e"
    unfolding nd using scaled by (simp add: algebra_simps)
  then have "\<bar>nearest_double x - x\<bar> = \<bar>of_int (round_even ?m) - ?m\<bar> * 2 powi ?e"
    by (simp add: abs_mult)
  also have "\<dots> \<le> (1 / 2) * 2 powi ?e"
    using round_even_error [of ?m] by (intro mult_right_mono) simp_all
  finally have err: "\<bar>nearest_double x - x\<bar> \<le> (1 / 2) * 2 powi ?e" .
  have "2 ^ 52 * 2 powi ?e \<le> ?m * 2 powi ?e"
    using significand_bounds(1) [OF assms] by (intro mult_right_mono) simp_all
  then have "2 ^ 52 * 2 powi ?e \<le> x"
    unfolding scaled .
  then have "(1 / 2) * 2 powi ?e \<le> x / 2 ^ 53"
    by simp
  with err show ?thesis by linarith
qed

subsection \<open>The percentage of a coin\<close>

lemma nearest_double_zero: "nearest_double 0 = 0"
  by (simp add: nearest_double_def)

lemma percentage_bounds:
  assumes "n \<le> t" and "0 < t"
  shows "0 \<le> js_mul (js_div (of_nat n) (of_nat t)) 100"
    and "js_mul (js_div (of_nat n) (of_nat t)) 100 \<le> 100"
proof -
  define q :: rat where "q = of_nat n / of_nat t"
  define d where "d = nearest_double q"
  have "(of_nat n :: rat) \<le> of_nat t" using assms by simp
  moreover have "(0::rat) < of_nat t" using assms by simp
  ultimately have q1: "q \<le> 1" by (simp add: q_def divide_le_eq)
  have q0: "0 \<le> q" by (simp add: q_def)
  have "nearest_double 0 \<le> nearest_double q"
    using q0 by (intro nearest_double_mono) simp_all
  then have d0: "0 \<le> d"
    by (simp only: d_def nearest_double_zero)
  have "nearest_double q \<le> nearest_double 1"
    using q0 q1 by (rule nearest_double_mono)
  then have d1: "d \<le> 1"
    by (simp only: d_def nearest_double_one)
  from d0 d1 have h0: "0 \<le> d * 100" and h1: "d * 100 \<le> 100" by simp_all
  have "nearest_double 0 \<le> nearest_double (d * 100)"
    using h0 by (intro nearest_double_mono) simp_all
  then have p0: "0 \<le> nearest_double (d * 100)"
    by (simp only: nearest_double_zero)
  have "nearest_double (d * 100) \<le> nearest_double 100"
    using h0 h1 by (rule nearest_double_mono)
  then have p1: "nearest_double (d * 100) \<le> 100"
    by (simp only: nearest_double_hundred)
  from p0 show "0 \<le> js_mul (js_div (of_nat n) (of_nat t)) 100"
    by (simp only: js_mul_def js_div_def d_def q_def)
  from p1 show "js_mul (js_div (of_nat n) (of_nat t)) 100 \<le> 100"
    by (simp only: js_mul_def js_div_def d_def q_def)
qed

lemma percentage_near:
  shows "\<bar>js_mul (js_div (of_nat n) (of_nat t)) 100 - 100 * (of_nat n / of_nat t)\<bar>
           \<le> 100 * (of_nat n / of_nat t) / 2 ^ 51"
proof -
  define q :: rat where "q = of_nat n / of_nat t"
  define d where "d = nearest_double q"
  define p where "p = nearest_double (d * 100)"
  have q0: "0 \<le> q" by (simp add: q_def)
  have "\<bar>p - 100 * q\<bar> \<le> 100 * q / 2 ^ 51"
  proof (cases "q = 0")
    case True
    then show ?thesis by (simp add: p_def d_def nearest_double_zero)
  next
    case False
    with q0 have q: "0 < q" by simp
    define a where "a = q / 2 ^ 53"
    have a0: "0 \<le> a" and aq: "a \<le> q"
      using q by (simp_all add: a_def divide_le_eq)
    from nearest_double_error [OF q] have dq: "\<bar>d - q\<bar> \<le> a"
      by (simp add: d_def a_def)
    from nearest_double_pos [OF q] have d: "0 < d" by (simp add: d_def)
    from dq aq have d2: "d \<le> 2 * q" by linarith
    from d have "0 < d * 100" by simp
    from nearest_double_error [OF this] have "\<bar>p - d * 100\<bar> \<le> d * 100 / 2 ^ 53"
      by (simp add: p_def)
    also have "\<dots> \<le> (2 * q) * 100 / 2 ^ 53"
      using d2 by (intro divide_right_mono mult_right_mono) simp_all
    also have "\<dots> = 200 * a" by (simp add: a_def)
    finally have pd: "\<bar>p - d * 100\<bar> \<le> 200 * a" .
    from pd dq have "\<bar>p - 100 * q\<bar> \<le> 300 * a" by linarith
    also have "\<dots> \<le> 400 * a" using a0 by simp
    also have "\<dots> = 100 * q / 2 ^ 51" by (simp add: a_def)
    finally show ?thesis .
  qed
  then show ?thesis
    by (simp only: p_def d_def q_def js_mul_def js_div_def)
qed

lemma sorted_insert_by:
  "sorted_wrt (\<lambda>a b. e_percentage b \<le> e_percentage a) ys \<Longrightarrow>
   sorted_wrt (\<lambda>a b. e_percentage b \<le> e_percentage a)
     (insert_by (\<lambda>a b. js_sub (e_percentage b) (e_percentage a)) x ys)"
  by (induction ys) (auto simp: set_insert_by js_sub_def nearest_double_nonpos_iff)

lemma sorted_sort_by:
  "sorted_wrt (\<lambda>a b. e_percentage b \<le> e_percentage a)
     (sort_by (\<lambda>a b. js_sub (e_percentage b) (e_percentage a)) xs)"
  by (induction xs) (simp_all add: sort_by_def sorted_insert_by)

text \<open>
  Claim C10. \<^verbatim>\<open>processData\<close> returns at most ten entries, in the order of non-increasing
  percentage. Every entry is that of a coin of the data with at least one comment: its
  percentage is the number \<^verbatim>\<open>(count / total) * 100\<close> of the language, where count is the
  number of the coin's comments whose indicator is the type of the card and total the
  number of all comments of the coin; it lies between 0 and 100, and it is the exact
  hundredfold of the quotient up to the rounding of the two operations, a part in \<open>2^51\<close>.
  Without data there is no entry.
\<close>

theorem processData_top_ten:
  "length (processData ty data) \<le> 10
   \<and> sorted_wrt (\<lambda>a b. e_percentage b \<le> e_percentage a) (processData ty data)
   \<and> (\<forall>e \<in> set (processData ty (Some d)).
        0 \<le> e_percentage e \<and> e_percentage e \<le> 100
        \<and> (\<exists>entry \<in> set d.
              0 < length (all_comments (snd entry))
              \<and> e_percentage e
                  = js_mul (js_div (of_nat (matching ty (snd entry)))
                                   (of_nat (length (all_comments (snd entry))))) 100
              \<and> \<bar>e_percentage e
                   - 100 * (of_nat (matching ty (snd entry)) / of_nat (length (all_comments (snd entry))))\<bar>
                  \<le> 100 * (of_nat (matching ty (snd entry)) / of_nat (length (all_comments (snd entry))))
                       / 2 ^ 51
              \<and> e_count e = matching ty (snd entry)
              \<and> e_coin e = (if length (fst entry) > 20 then take 20 (fst entry) @ ''...''
                            else fst entry)))
   \<and> processData ty None = []"
proof -
  have len: "length (processData ty data) \<le> 10"
    by (simp add: processData_def split: option.splits)
  have srt: "sorted_wrt (\<lambda>a b. e_percentage b \<le> e_percentage a) (processData ty data)"
    by (simp add: processData_def sorted_sort_by sorted_wrt_take_prefix split: option.splits)
  have ent: "0 \<le> e_percentage e \<and> e_percentage e \<le> 100
        \<and> (\<exists>entry \<in> set d.
              0 < length (all_comments (snd entry))
              \<and> e_percentage e
                  = js_mul (js_div (of_nat (matching ty (snd entry)))
                                   (of_nat (length (all_comments (snd entry))))) 100
              \<and> \<bar>e_percentage e
                   - 100 * (of_nat (matching ty (snd entry)) / of_nat (length (all_comments (snd entry))))\<bar>
                  \<le> 100 * (of_nat (matching ty (snd entry)) / of_nat (length (all_comments (snd entry))))
                       / 2 ^ 51
              \<and> e_count e = matching ty (snd entry)
              \<and> e_coin e = (if length (fst entry) > 20 then take 20 (fst entry) @ ''...''
                            else fst entry))"
    if e: "e \<in> set (processData ty (Some d))" for e
  proof -
    from e have "e \<in> set (map chart_entry_of (collect ty d []))"
      by (auto simp: processData_def set_sort_by dest: in_set_takeD)
    then obtain c where c: "c \<in> set (collect ty d [])" and ec: "e = chart_entry_of c"
      by auto
    from collect_counted [of "[]" ty "[]" d] c have "counted ty d c"
      by simp
    then obtain sd where sd: "(fst c, sd) \<in> set d" "0 < length (all_comments sd)"
      "cs_total (snd c) = length (all_comments sd)" "cs_count (snd c) = matching ty sd"
      unfolding counted_def by blast
    have le: "matching ty sd \<le> length (all_comments sd)"
      by (simp add: matching_def)
    from sd ec have pct: "e_percentage e
                  = js_mul (js_div (of_nat (matching ty sd)) (of_nat (length (all_comments sd)))) 100"
      and rest: "e_count e = matching ty sd"
      "e_coin e = (if length (fst c) > 20 then take 20 (fst c) @ ''...'' else fst c)"
      by (simp_all add: chart_entry_of_def split_beta)
    from percentage_bounds [OF le sd(2)]
    have bounds: "0 \<le> e_percentage e \<and> e_percentage e \<le> 100"
      unfolding pct by simp
    have near: "\<bar>e_percentage e
                   - 100 * (of_nat (matching ty sd) / of_nat (length (all_comments sd)))\<bar>
                  \<le> 100 * (of_nat (matching ty sd) / of_nat (length (all_comments sd))) / 2 ^ 51"
      unfolding pct by (rule percentage_near)
    from bounds pct near rest sd(1,2) show ?thesis
      by (intro conjI bexI [of _ "(fst c, sd)"]) simp_all
  qed
  have none: "processData ty None = []"
    by (simp add: processData_def)
  from len srt ent none show ?thesis by blast
qed

text \<open>The theorem at two data sets. In the second, 7 comments of 100 say buy: the
  percentage is the double next above 7.\<close>

theorem processData_top_ten_witness:
  "processData ''buy'' (Some demo_coins_data) =
     [\<lparr> e_coin = ''ETH'', e_percentage = 100, e_count = 1 \<rparr>,
      \<lparr> e_coin = ''BTC'', e_percentage = 60, e_count = 3 \<rparr>]
   \<and> processData ''buy'' (Some demo_rounding_data) =
     [\<lparr> e_coin = ''ADA'', e_percentage = 7881299347898369 / 1125899906842624, e_count = 7 \<rparr>]
   \<and> length (processData ''buy'' (Some demo_coins_data)) \<le> 10
   \<and> sorted_wrt (\<lambda>a b. e_percentage b \<le> e_percentage a) (processData ''buy'' (Some demo_coins_data))"
proof -
  have "processData ''buy'' (Some demo_coins_data) =
     [\<lparr> e_coin = ''ETH'', e_percentage = 100, e_count = 1 \<rparr>,
      \<lparr> e_coin = ''BTC'', e_percentage = 60, e_count = 3 \<rparr>]"
    by code_simp
  moreover have "processData ''buy'' (Some demo_rounding_data) =
     [\<lparr> e_coin = ''ADA'', e_percentage = 7881299347898369 / 1125899906842624, e_count = 7 \<rparr>]"
    by code_simp
  ultimately show ?thesis
    using processData_top_ten [of "''buy''" "Some demo_coins_data" demo_coins_data]
    by blast
qed

section \<open>Properties of the trading suggestions\<close>

subsection \<open>Creating a trade view\<close>

lemma filter_nonempty_iff: "(filter P xs \<noteq> []) = (\<exists>x \<in> set xs. P x)"
  by (simp add: filter_empty_conv)

text \<open>
  Claim C6. For a signed-in user: when the user has a trade view of the given name, creating
  one adds no row to \<^verbatim>\<open>trade_views\<close>, shows one error notification and leaves the component
  as it was; when the query for it is answered and finds the one row, the notification says
  that the name exists. When the user has no trade view of the name and the backend answers
  the query and stores the insert, exactly one row is added: it has the name, the id of the
  user and the status \<^verbatim>\<open>'active'\<close>.
\<close>

theorem create_trade_view_checks_name:
  "(getSession ans = (Some sess, None) \<and>
    (\<exists>r \<in> set (trade_views st). tv_user_id r = session_user_id sess \<and> tv_name r = name) \<longrightarrow>
      trade_views (handleCreateTradeView coins ans name st) = trade_views st
      \<and> (\<exists>t. toasts (handleCreateTradeView coins ans name st) = toasts st @ [t]
              \<and> title t = ''Error'' \<and> variant t = Some ''destructive''
              \<and> (check_fails ans = None \<and>
                  length (filter (\<lambda>r. tv_user_id r = session_user_id sess \<and> tv_name r = name)
                            (trade_views st)) = 1 \<longrightarrow>
                  description t =
                    ''A trading view with this name already exists. Please choose a different name.''))
      \<and> started (handleCreateTradeView coins ans name st) = started st
      \<and> tradeView (handleCreateTradeView coins ans name st) = tradeView st)
   \<and> (getSession ans = (Some sess, None) \<and>
      \<not> (\<exists>r \<in> set (trade_views st). tv_user_id r = session_user_id sess \<and> tv_name r = name) \<and>
      check_fails ans = None \<and>
      (insertAnswer ans = Inserted new_id \<or> insertAnswer ans = InsertedNoData new_id) \<longrightarrow>
        trade_views (handleCreateTradeView coins ans name st) =
          trade_views st @ [\<lparr> tv_id = new_id, tv_name = name, tv_user_id = session_user_id sess,
                               tv_status = ''active'' \<rparr>])"
proof -
  let ?rows = "filter (\<lambda>r. tv_user_id r = session_user_id sess \<and> tv_name r = name) (trade_views st)"
  let ?st' = "handleCreateTradeView coins ans name st"
  have exists: "trade_views ?st' = trade_views st
      \<and> (\<exists>t. toasts ?st' = toasts st @ [t]
              \<and> title t = ''Error'' \<and> variant t = Some ''destructive''
              \<and> (check_fails ans = None \<and> length ?rows = 1 \<longrightarrow>
                  description t =
                    ''A trading view with this name already exists. Please choose a different name.''))
      \<and> started ?st' = started st \<and> tradeView ?st' = tradeView st"
    if signed: "getSession ans = (Some sess, None)"
      and has: "\<exists>r \<in> set (trade_views st). tv_user_id r = session_user_id sess \<and> tv_name r = name"
  proof (cases "check_fails ans")
    case (Some e)
    with signed show ?thesis
      by (simp add: handleCreateTradeView_def create_failed_def show_toast_def)
  next
    case None
    from has have ne: "?rows \<noteq> []"
      by (simp add: filter_nonempty_iff)
    show ?thesis
    proof (cases ?rows rule: maybeSingle.cases)
      case 1
      with ne show ?thesis by simp
    next
      case (2 r)
      with signed None show ?thesis
        by (simp add: handleCreateTradeView_def show_toast_def)
    next
      case (3 r r' rs)
      with signed None show ?thesis
        by (simp add: handleCreateTradeView_def create_failed_def show_toast_def)
    qed
  qed
  have fresh: "trade_views ?st' =
          trade_views st @ [\<lparr> tv_id = new_id, tv_name = name, tv_user_id = session_user_id sess,
                               tv_status = ''active'' \<rparr>]"
    if signed: "getSession ans = (Some sess, None)"
      and hasnt: "\<not> (\<exists>r \<in> set (trade_views st). tv_user_id r = session_user_id sess \<and> tv_name r = name)"
      and answered: "check_fails ans = None"
      and stored: "insertAnswer ans = Inserted new_id \<or> insertAnswer ans = InsertedNoData new_id"
  proof -
    from hasnt have "?rows = []"
      using filter_nonempty_iff [of "\<lambda>r. tv_user_id r = session_user_id sess \<and> tv_name r = name"
          "trade_views st"]
      by blast
    with signed answered stored show ?thesis
      by (auto simp: handleCreateTradeView_def create_failed_def show_toast_def)
  qed
  from exists fresh show ?thesis by blast
qed

lemma demo_started_value:
  "demo_started =
     \<lparr> started = True, isTradeNameDialogOpen = False,
       tradeView = \<lparr> view_id = Some ''8'', currentIndex = 0, view_coins = demo_coins \<rparr>,
       toasts = [\<lparr> title = ''Analysis Started'',
                   description = ''Analyzing coins for trading suggestions...'',
                   variant = None \<rparr>],
       trade_views = [\<lparr> tv_id = ''7'', tv_name = ''swing'', tv_user_id = ''u1'',
                        tv_status = ''active'' \<rparr>,
                      \<lparr> tv_id = ''8'', tv_name = ''scalp'', tv_user_id = ''u1'',
                        tv_status = ''active'' \<rparr>],
       coin_indicators = [],
       pending = [] \<rparr>"
  by (simp add: demo_started_def handleCreateTradeView_def demo_answers_def demo_component_def
      show_toast_def)

theorem create_trade_view_checks_name_witness:
  "trade_views (handleCreateTradeView demo_coins demo_answers ''swing'' demo_component)
     = trade_views demo_component
   \<and> toasts (handleCreateTradeView demo_coins demo_answers ''swing'' demo_component)
     = [\<lparr> title = ''Error'',
          description = ''A trading view with this name already exists. Please choose a different name.'',
          variant = Some ''destructive'' \<rparr>]
   \<and> trade_views (handleCreateTradeView demo_coins demo_answers ''scalp'' demo_component)
     = trade_views demo_component
         @ [\<lparr> tv_id = ''8'', tv_name = ''scalp'', tv_user_id = ''u1'', tv_status = ''active'' \<rparr>]"
proof -
  have signed: "getSession demo_answers = (Some \<lparr> session_user_id = ''u1'' \<rparr>, None)"
    and answered: "check_fails demo_answers = None"
    and stored: "insertAnswer demo_answers = Inserted ''8''"
    by (simp_all add: demo_answers_def)
  have has: "\<exists>r \<in> set (trade_views demo_component).
               tv_user_id r = session_user_id \<lparr> session_user_id = ''u1'' \<rparr> \<and> tv_name r = ''swing''"
    and hasnt: "\<not> (\<exists>r \<in> set (trade_views demo_component).
               tv_user_id r = session_user_id \<lparr> session_user_id = ''u1'' \<rparr> \<and> tv_name r = ''scalp'')"
    and one: "length (filter (\<lambda>r. tv_user_id r = session_user_id \<lparr> session_user_id = ''u1'' \<rparr>
                                 \<and> tv_name r = ''swing'') (trade_views demo_component)) = 1"
    and empty: "toasts demo_component = []"
    by (simp_all add: demo_component_def)
  from create_trade_view_checks_name
         [of demo_answers "\<lparr> session_user_id = ''u1'' \<rparr>" demo_component "''swing''" demo_coins "''8''"]
       signed has answered one empty
  have a: "trade_views (handleCreateTradeView demo_coins demo_answers ''swing'' demo_component)
             = trade_views demo_component"
    and b: "\<exists>t. toasts (handleCreateTradeView demo_coins demo_answers ''swing'' demo_component) = [t]
              \<and> title t = ''Error'' \<and> variant t = Some ''destructive''
              \<and> description t =
                    ''A trading view with this name already exists. Please choose a different name.''"
    by auto
  from create_trade_view_checks_name
         [of demo_answers "\<lparr> session_user_id = ''u1'' \<rparr>" demo_component "''scalp''" demo_coins "''8''"]
       signed hasnt answered stored
  have c: "trade_views (handleCreateTradeView demo_coins demo_answers ''scalp'' demo_component)
     = trade_views demo_component
         @ [\<lparr> tv_id = ''8'', tv_name = ''scalp'', tv_user_id = ''u1'', tv_status = ''active'' \<rparr>]"
    by simp
  from b have "toasts (handleCreateTradeView demo_coins demo_answers ''swing'' demo_component)
     = [\<lparr> title = ''Error'',
          description = ''A trading view with this name already exists. Please choose a different name.'',
          variant = Some ''destructive'' \<rparr>]"
    by (cases "toasts (handleCreateTradeView demo_coins demo_answers ''swing'' demo_component)") auto
  with a c show ?thesis by blast
qed

subsection \<open>The rows of a decision\<close>

lemmas handler_defs = handleNext_def handleBuy_def run_def handleNext_call_def handleNext_resume_def
  handleBuy_call_def handleBuy_resume_def currentCoin_def settle_insert_def show_toast_def
  indicator_row_def

text \<open>
  Claim C9. A buy decision that runs to its end with both inserts stored writes two rows
  for the current coin: first one with the response \<^verbatim>\<open>'buy'\<close>, then, by the \<^verbatim>\<open>handleNext\<close> it
  calls, one without a response; after that the index has moved on if the coin was not
  the last. A plain next step writes the one row without a response.
\<close>

theorem buy_writes_two_rows:
  assumes view: "view_id (tradeView st) = Some v" and nonempty: "v \<noteq> []"
      and inrange: "currentIndex (tradeView st) < length coins"
  shows "coin_indicators (handleBuy coins Stored Stored st) =
           coin_indicators st
             @ [\<lparr> trade_view_id = v, coin_symbol = c_symbol (coins ! currentIndex (tradeView st)),
                  sentiment = c_strategy (coins ! currentIndex (tradeView st)),
                  indicators = c_indicators (coins ! currentIndex (tradeView st)),
                  user_response = Some ''buy'' \<rparr>,
                \<lparr> trade_view_id = v, coin_symbol = c_symbol (coins ! currentIndex (tradeView st)),
                  sentiment = c_strategy (coins ! currentIndex (tradeView st)),
                  indicators = c_indicators (coins ! currentIndex (tradeView st)),
                  user_response = None \<rparr>]
       \<and> currentIndex (tradeView (handleBuy coins Stored Stored st)) =
           (if currentIndex (tradeView st) + 1 < length coins then currentIndex (tradeView st) + 1
            else currentIndex (tradeView st))
       \<and> coin_indicators (handleNext coins Stored st) =
           coin_indicators st
             @ [\<lparr> trade_view_id = v, coin_symbol = c_symbol (coins ! currentIndex (tradeView st)),
                  sentiment = c_strategy (coins ! currentIndex (tradeView st)),
                  indicators = c_indicators (coins ! currentIndex (tradeView st)),
                  user_response = None \<rparr>]
       \<and> currentIndex (tradeView (handleNext coins Stored st)) =
           (if currentIndex (tradeView st) + 1 < length coins then currentIndex (tradeView st) + 1
            else currentIndex (tradeView st))"
  using assms by (simp add: handler_defs Let_def)

theorem buy_writes_two_rows_witness:
  "coin_indicators (handleBuy demo_coins Stored Stored demo_started) =
     [\<lparr> trade_view_id = ''8'', coin_symbol = ''BTCUSDT'', sentiment = ''buy'', indicators = ''rsi'',
        user_response = Some ''buy'' \<rparr>,
      \<lparr> trade_view_id = ''8'', coin_symbol = ''BTCUSDT'', sentiment = ''buy'', indicators = ''rsi'',
        user_response = None \<rparr>]
   \<and> currentIndex (tradeView (handleBuy demo_coins Stored Stored demo_started)) = 1
   \<and> coin_indicators (handleNext demo_coins Stored demo_started) =
     [\<lparr> trade_view_id = ''8'', coin_symbol = ''BTCUSDT'', sentiment = ''buy'', indicators = ''rsi'',
        user_response = None \<rparr>]"
proof -
  have view: "view_id (tradeView demo_started) = Some ''8''" and ne: "''8'' \<noteq> []"
    and inrange: "currentIndex (tradeView demo_started) < length demo_coins"
    by (simp_all add: demo_started_value demo_coins_def)
  from buy_writes_two_rows [OF view ne inrange] show ?thesis
    by (simp add: demo_started_value demo_coins_def)
qed

subsection \<open>The index of the current coin\<close>

lemma handleNext_keeps_range:
  assumes "currentIndex (tradeView st) < length coins"
  shows "currentIndex (tradeView (handleNext coins result st)) < length coins
       \<and> pending (handleNext coins result st) = pending st"
  using assms
  by (cases result) (auto simp: handler_defs Let_def split: option.splits)

lemma handleBuy_keeps_range:
  assumes "currentIndex (tradeView st) < length coins"
  shows "currentIndex (tradeView (handleBuy coins result result' st)) < length coins
       \<and> pending (handleBuy coins result result' st) = pending st"
  using assms
  by (cases result; cases result') (auto simp: handler_defs Let_def split: option.splits)

text \<open>Calls that each run to their end before the next one starts keep the index of the
  current coin within the list of coins.\<close>

lemma calls_one_by_one_keep_range:
  assumes "currentIndex (tradeView st) < length coins"
  shows "currentIndex (tradeView (foldl (run_call coins) st calls)) < length coins"
  using assms
proof (induction calls arbitrary: st)
  case Nil
  then show ?case by simp
next
  case (Cons c calls)
  have "currentIndex (tradeView (run_call coins st c)) < length coins"
    using Cons.prems handleNext_keeps_range handleBuy_keeps_range
    by (cases c) simp_all
  from Cons.IH [OF this] show ?case by simp
qed

text \<open>
  Claim C8 fails on the code for calls that overlap. With two coins and the index at 0, a
  second click on Next before the insert of the first has settled runs the handler of the
  same render: both calls pass the test \<^verbatim>\<open>currentIndex < coins.length - 1\<close> on the index 0 of
  that render, both add one to the index of the state, and the index is 2: there is no
  current coin.
\<close>

theorem overlapping_next_calls_leave_range:
  "currentIndex (tradeView demo_started) = 0 \<and> length demo_coins = 2
   \<and> currentIndex (tradeView (run demo_coins demo_started
                                 [ClickNext, ClickNext, Settle 0 Stored, Settle 0 Stored])) = 2
   \<and> currentCoin demo_coins
        (tradeView (run demo_coins demo_started
                      [ClickNext, ClickNext, Settle 0 Stored, Settle 0 Stored])) = None"
  by (simp add: demo_started_value demo_coins_def handler_defs Let_def)

end
